theory Spec2Isabelle
  imports Complex_Main "HOL-Library.AList" "HOL-Library.Log_Nat"
begin

section \<open>Python values, dictionaries and exceptions\<close>

text \<open>
  The settings of \<^verbatim>\<open>ImageProcessingService\<close> are JSON-like Python values: nested
  dictionaries with string keys whose leaves are \<^verbatim>\<open>None\<close>, booleans, integers and
  strings.  A dictionary is an association list in insertion order with distinct keys;
  \<^verbatim>\<open>d[k] = v\<close> is \<open>AList.update\<close>, which overwrites in place or appends.
\<close>

datatype pyval =
    PNone
  | PBool bool
  | PInt int
  | PStr string
  | PDict "(string \<times> pyval) list"

type_synonym pydict = "(string \<times> pyval) list"

text \<open>An exception is a value: its class and its message (\<^verbatim>\<open>str(e)\<close>).\<close>

datatype error =
    KeyError string
  | TypeError string
  | AttributeError string
  | ZeroDivisionError string
  | OverflowError string
  | ExternalError string string
    \<comment> \<open>raised inside the image library or the operating system: class name, message\<close>

fun error_type_name :: "error \<Rightarrow> string" where
  "error_type_name (KeyError m) = ''KeyError''"
| "error_type_name (TypeError m) = ''TypeError''"
| "error_type_name (AttributeError m) = ''AttributeError''"
| "error_type_name (ZeroDivisionError m) = ''ZeroDivisionError''"
| "error_type_name (OverflowError m) = ''OverflowError''"
| "error_type_name (ExternalError c m) = c"

fun error_str :: "error \<Rightarrow> string" where
  "error_str (KeyError m) = m"
| "error_str (TypeError m) = m"
| "error_str (AttributeError m) = m"
| "error_str (ZeroDivisionError m) = m"
| "error_str (OverflowError m) = m"
| "error_str (ExternalError c m) = m"

text \<open>Sequencing of fallible steps: the first exception ends the computation.\<close>

definition bind_err :: "error + 'a \<Rightarrow> ('a \<Rightarrow> error + 'b) \<Rightarrow> error + 'b" where
  "bind_err m f = (case m of Inl e \<Rightarrow> Inl e | Inr x \<Rightarrow> f x)"

text \<open>Python truthiness (\<^verbatim>\<open>if x:\<close>, \<^verbatim>\<open>not x\<close>, \<^verbatim>\<open>x or y\<close>).\<close>

fun truthy :: "pyval \<Rightarrow> bool" where
  "truthy PNone = False"
| "truthy (PBool b) = b"
| "truthy (PInt n) = (n \<noteq> 0)"
| "truthy (PStr s) = (s \<noteq> [])"
| "truthy (PDict d) = (d \<noteq> [])"

text \<open>\<^verbatim>\<open>d.get(k)\<close> and \<^verbatim>\<open>d.get(k, default)\<close>.\<close>

definition dict_get :: "pydict \<Rightarrow> string \<Rightarrow> pyval" where
  "dict_get d k = (case map_of d k of None \<Rightarrow> PNone | Some v \<Rightarrow> v)"

definition dict_get_default :: "pydict \<Rightarrow> string \<Rightarrow> pyval \<Rightarrow> pyval" where
  "dict_get_default d k dflt = (case map_of d k of None \<Rightarrow> dflt | Some v \<Rightarrow> v)"

text \<open>\<^verbatim>\<open>d[k]\<close> on a dictionary: \<^verbatim>\<open>KeyError\<close> when the key is missing.\<close>

definition dict_item :: "pydict \<Rightarrow> string \<Rightarrow> error + pyval" where
  "dict_item d k = (case map_of d k of None \<Rightarrow> Inl (KeyError k) | Some v \<Rightarrow> Inr v)"

text \<open>
  \<^verbatim>\<open>v[k]\<close> on an arbitrary value with a string key: only a dictionary can be
  subscripted this way, every other value of the model raises \<^verbatim>\<open>TypeError\<close>.
\<close>

fun subscript :: "pyval \<Rightarrow> string \<Rightarrow> error + pyval" where
  "subscript (PDict d) k = dict_item d k"
| "subscript v k = Inl (TypeError ''object is not subscriptable with a string key'')"

text \<open>\<^verbatim>\<open>s[k1][k2]\<close> and \<^verbatim>\<open>s[k1][k2] = v\<close> on the settings dictionary \<open>s\<close>.\<close>

definition get_nested :: "pydict \<Rightarrow> string \<Rightarrow> string \<Rightarrow> error + pyval" where
  "get_nested s k1 k2 = bind_err (dict_item s k1) (\<lambda>v. subscript v k2)"

definition set_nested :: "pydict \<Rightarrow> string \<Rightarrow> string \<Rightarrow> pyval \<Rightarrow> error + pydict" where
  "set_nested s k1 k2 v =
     (case map_of s k1 of
        None \<Rightarrow> Inl (KeyError k1)
      | Some (PDict d) \<Rightarrow> Inr (AList.update k1 (PDict (AList.update k2 v d)) s)
      | Some _ \<Rightarrow> Inl (TypeError ''object does not support item assignment''))"

section \<open>Settings resolver: \<^verbatim>\<open>_deep_merge\<close>\<close>

text \<open>
  \<^verbatim>\<open>
  def _deep_merge(self, base, override):
      result = base.copy()
      for key, value in override.items():
          if key in result and isinstance(result[key], dict) and isinstance(value, dict):
              result[key] = self._deep_merge(result[key], value)
          else:
              result[key] = value
      return result
  \<close>
  The first argument of the model is the running \<^verbatim>\<open>result\<close>, the second the part of
  \<^verbatim>\<open>override.items()\<close> still to be visited.
\<close>

fun deep_merge :: "pydict \<Rightarrow> pydict \<Rightarrow> pydict" where
  "deep_merge result [] = result"
| "deep_merge result ((key, PDict ov) # rest) =
     (case map_of result key of
        Some (PDict b) \<Rightarrow> deep_merge (AList.update key (PDict (deep_merge b ov)) result) rest
      | _ \<Rightarrow> deep_merge (AList.update key (PDict ov) result) rest)"
| "deep_merge result ((key, v) # rest) = deep_merge (AList.update key v result) rest"

text \<open>The class constants.\<close>

definition OUTPUT_FORMATS :: "(string \<times> string option) list" where
  "OUTPUT_FORMATS =
     [(''jpeg'', Some ''JPEG''),
      (''jpg'', Some ''JPEG''),
      (''png'', Some ''PNG''),
      (''webp'', Some ''WEBP''),
      (''gif'', Some ''GIF''),
      (''original'', None)]"

definition DEFAULT_SETTINGS :: pydict where
  "DEFAULT_SETTINGS =
     [(''mode'', PStr ''auto''),
      (''targetFileSize'', PInt (150 * 1024)),
      (''compression'', PDict
         [(''enabled'', PBool True),
          (''quality'', PInt 85),
          (''maxWidth'', PInt 1920),
          (''maxHeight'', PInt 1080)]),
      (''format'', PDict
         [(''outputFormat'', PStr ''webp''),
          (''convertToWebp'', PBool True)]),
      (''optimization'', PDict
         [(''removeMetadata'', PBool True),
          (''progressive'', PBool True),
          (''autoOrient'', PBool True)]),
      (''resize'', PDict
         [(''enabled'', PBool False),
          (''width'', PNone),
          (''height'', PNone),
          (''maintainAspectRatio'', PBool True)])]"

section \<open>Format resolver: \<^verbatim>\<open>_determine_output_format\<close>\<close>

text \<open>\<^verbatim>\<open>str.lower()\<close> on ASCII text: the letters A to Z move to a to z.\<close>

definition lower_char :: "char \<Rightarrow> char" where
  "lower_char c =
     (case map_of (zip ''ABCDEFGHIJKLMNOPQRSTUVWXYZ'' ''abcdefghijklmnopqrstuvwxyz'') c of
        None \<Rightarrow> c
      | Some l \<Rightarrow> l)"

definition lower :: "string \<Rightarrow> string" where
  "lower s = map lower_char s"

text \<open>\<^verbatim>\<open>v.get(k)\<close> and \<^verbatim>\<open>v.get(k, default)\<close> on a value: only a dictionary has the method.\<close>

fun val_get :: "pyval \<Rightarrow> string \<Rightarrow> error + pyval" where
  "val_get (PDict d) k = Inr (dict_get d k)"
| "val_get v k = Inl (AttributeError ''object has no attribute get'')"

fun val_get_default :: "pyval \<Rightarrow> string \<Rightarrow> pyval \<Rightarrow> error + pyval" where
  "val_get_default (PDict d) k dflt = Inr (dict_get_default d k dflt)"
| "val_get_default v k dflt = Inl (AttributeError ''object has no attribute get'')"

text \<open>
  \<^verbatim>\<open>x.lower()\<close> on a value: only strings have the method.
\<close>

fun val_lower :: "pyval \<Rightarrow> error + string" where
  "val_lower (PStr s) = Inr (lower s)"
| "val_lower v = Inl (AttributeError ''object has no attribute lower'')"

text \<open>
  \<^verbatim>\<open>
  def _determine_output_format(self, original_format, format_settings):
      output_format = format_settings.get('outputFormat', 'webp').lower()
      if output_format == 'original':
          return original_format or 'JPEG'
      return self.OUTPUT_FORMATS.get(output_format, 'WEBP')
  \<close>
  \<^verbatim>\<open>original_format\<close> is \<^verbatim>\<open>image.format\<close>: a string or \<^verbatim>\<open>None\<close>.  The result is a
  string or \<^verbatim>\<open>None\<close>, as the values of \<^verbatim>\<open>OUTPUT_FORMATS\<close> are.
\<close>

definition determine_output_format :: "string option \<Rightarrow> pyval \<Rightarrow> error + string option" where
  "determine_output_format original_format format_settings =
     bind_err (val_get_default format_settings ''outputFormat'' (PStr ''webp'')) (\<lambda>v.
     bind_err (val_lower v) (\<lambda>output_format.
       if output_format = ''original'' then
         Inr (case original_format of
                None \<Rightarrow> Some ''JPEG''
              | Some x \<Rightarrow> if x = [] then Some ''JPEG'' else Some x)
       else
         Inr (case map_of OUTPUT_FORMATS output_format of
                None \<Rightarrow> Some ''WEBP''
              | Some r \<Rightarrow> r)))"

section \<open>Python floats\<close>

text \<open>
  A Python \<^verbatim>\<open>float\<close> is an IEEE 754 binary64 number.  A finite one is modelled by the
  rational it denotes; the two infinities by \<open>float_inf\<close> and \<open>- float_inf\<close>, the least
  magnitude that no finite double reaches.  Every arithmetic operation computes the exact
  result and rounds it to the nearest double, ties to even (\<open>fl\<close>): 53 significant bits,
  least exponent \<open>-1022\<close> (below it the spacing stays at \<open>2 powi -1074\<close>).
\<close>

type_synonym pyfloat = rat

definition round_half_even :: "rat \<Rightarrow> int" where
  "round_half_even x =
     (let f = \<lfloor>x\<rfloor>; d = x - of_int f
      in if d < 1 / 2 then f else if 1 / 2 < d then f + 1 else if even f then f else f + 1)"

text \<open>The exponent \<open>e\<close> with \<open>2 powi e \<le> x < 2 powi (e + 1)\<close>, for \<open>x > 0\<close>.\<close>

definition ilog2 :: "rat \<Rightarrow> int" where
  "ilog2 x = (if 1 \<le> x then bitlen \<lfloor>x\<rfloor> - 1 else - bitlen (\<lceil>1 / x\<rceil> - 1))"

definition fl :: "rat \<Rightarrow> pyfloat" where
  "fl x =
     (if x = 0 then 0
      else let e = max (ilog2 \<bar>x\<bar>) (- 1022); u = 2 powi (e - 52)
           in sgn x * (of_int (round_half_even (\<bar>x\<bar> / u)) * u))"

definition float_inf :: pyfloat where
  "float_inf = 2 ^ 1024"

definition to_double :: "rat \<Rightarrow> pyfloat" where
  "to_double x =
     (let r = fl x
      in if float_inf \<le> r then float_inf else if r \<le> - float_inf then - float_inf else r)"

text \<open>\<^verbatim>\<open>float(n)\<close>, the implicit conversion of an \<^verbatim>\<open>int\<close> operand.\<close>

definition float_of_int :: "int \<Rightarrow> error + pyfloat" where
  "float_of_int n =
     (let r = fl (of_int n)
      in if float_inf \<le> \<bar>r\<bar> then Inl (OverflowError ''int too large to convert to float'')
         else Inr r)"

text \<open>\<^verbatim>\<open>a / b\<close> on two \<^verbatim>\<open>int\<close>s: the correctly rounded quotient.\<close>

definition int_truediv :: "int \<Rightarrow> int \<Rightarrow> error + pyfloat" where
  "int_truediv a b =
     (if b = 0 then Inl (ZeroDivisionError ''division by zero'')
      else let r = fl (of_int a / of_int b)
           in if float_inf \<le> \<bar>r\<bar>
              then Inl (OverflowError ''integer division result too large for a float'')
              else Inr r)"

definition float_mul :: "pyfloat \<Rightarrow> pyfloat \<Rightarrow> pyfloat" where
  "float_mul x y = to_double (x * y)"

definition float_sub :: "pyfloat \<Rightarrow> pyfloat \<Rightarrow> pyfloat" where
  "float_sub x y = to_double (x - y)"

text \<open>\<^verbatim>\<open>int(x)\<close> on a float: truncation towards zero.\<close>

definition int_of_float :: "pyfloat \<Rightarrow> error + int" where
  "int_of_float x =
     (if float_inf \<le> \<bar>x\<bar> then Inl (OverflowError ''cannot convert float infinity to integer'')
      else Inr (if 0 \<le> x then \<lfloor>x\<rfloor> else \<lceil>x\<rceil>))"

text \<open>\<^verbatim>\<open>int(n * x)\<close> for an \<^verbatim>\<open>int\<close> \<open>n\<close> and a \<^verbatim>\<open>float\<close> \<open>x\<close>.\<close>

definition int_mul_float :: "int \<Rightarrow> pyfloat \<Rightarrow> error + int" where
  "int_mul_float n x = bind_err (float_of_int n) (\<lambda>f. int_of_float (float_mul f x))"

text \<open>
  \<^verbatim>\<open>n > x\<close> for an \<^verbatim>\<open>int\<close> \<open>n\<close> and a \<^verbatim>\<open>float\<close> \<open>x\<close>: Python compares the two
  values exactly.
\<close>

definition int_gt_float :: "int \<Rightarrow> pyfloat \<Rightarrow> bool" where
  "int_gt_float n x =
     (if float_inf \<le> x then False else if x \<le> - float_inf then True else x < of_int n)"

text \<open>
  \<^verbatim>\<open>round(x, 2)\<close>: the double nearest to \<open>x\<close> rounded to two decimals, where the
  decimal rounding is exact on the value of \<open>x\<close>, ties to even.
\<close>

definition py_round2 :: "pyfloat \<Rightarrow> pyfloat" where
  "py_round2 x =
     (if float_inf \<le> \<bar>x\<bar> then x else to_double (of_int (round_half_even (x * 100)) / 100))"

text \<open>Half a unit in the last place, relative to the value: the rounding error of \<open>fl\<close>.\<close>

definition ulp_half :: rat where "ulp_half = 1 / 2 ^ 53"

text \<open>
  A number as an operand of arithmetic or of an ordering comparison against an
  \<^verbatim>\<open>int\<close>: \<^verbatim>\<open>bool\<close> is a subclass of \<^verbatim>\<open>int\<close>; \<^verbatim>\<open>None\<close>, strings and
  dictionaries raise \<^verbatim>\<open>TypeError\<close>.
\<close>

fun as_num :: "pyval \<Rightarrow> error + int" where
  "as_num (PInt n) = Inr n"
| "as_num (PBool b) = Inr (if b then 1 else 0)"
| "as_num v = Inl (TypeError ''unsupported operand type(s)'')"

definition val_truediv :: "pyval \<Rightarrow> int \<Rightarrow> error + pyfloat" where
  "val_truediv v b = bind_err (as_num v) (\<lambda>a. int_truediv a b)"

section \<open>Images and the external image library\<close>

text \<open>
  An image as the service sees a \<^verbatim>\<open>PIL.Image.Image\<close>: its attributes \<^verbatim>\<open>size\<close>,
  \<^verbatim>\<open>mode\<close>, \<^verbatim>\<open>format\<close> and \<^verbatim>\<open>info\<close> (the metadata: EXIF, colour profile and so
  on), the pixel values \<^verbatim>\<open>list(image.getdata())\<close>, and \<^verbatim>\<open>is_animated\<close>, an
  attribute that only some decoders' images have (\<open>None\<close>: no such attribute).  For an
  image of a palette mode (\<^verbatim>\<open>P\<close>, \<^verbatim>\<open>PA\<close>) the pixel values are indices into its
  \<^verbatim>\<open>palette\<close>, the list of colours; the colour of a pixel is the palette entry at its
  index (\<open>None\<close>: the mode has no palette).
\<close>

type_synonym pixel = "nat list"
type_synonym byte = nat

record image =
  width :: int
  height :: int
  mode :: string
  format :: "string option"
  info :: "(string \<times> string) list"
  palette :: "pixel list option"
  data :: "pixel list"
  is_animated :: "bool option"

text \<open>
  The colours an image shows: the pixel values themselves, or for a palette image the
  palette entry at each pixel's index followed by the pixel's remaining bands (the alpha
  of mode \<^verbatim>\<open>PA\<close>).  The library stores a palette in a zero-filled table, so an index
  that the palette does not define shows black.
\<close>

definition colours :: "image \<Rightarrow> pixel list" where
  "colours img =
     (case palette img of
        None \<Rightarrow> data img
      | Some cs \<Rightarrow>
          map (\<lambda>px. case px of
                       [] \<Rightarrow> []
                     | i # bands \<Rightarrow> (if i < length cs then cs ! i else [0, 0, 0]) @ bands)
            (data img))"


datatype input = Path string | BytesIO "byte list"

text \<open>
  Everything the service calls and does not define: the decoder and encoder, the EXIF
  transposition, the resampling filter, alpha compositing, \<^verbatim>\<open>x ** 0.5\<close> of the C
  library, and the few operating system services.  The model takes them as a parameter,
  so that each theorem holds for every behaviour of them.
\<close>

record env =
  image_open :: "input \<Rightarrow> error + image"
    \<comment> \<open>\<^verbatim>\<open>Image.open\<close>\<close>
  exif_transpose :: "image \<Rightarrow> error + image"
    \<comment> \<open>\<^verbatim>\<open>ImageOps.exif_transpose\<close>\<close>
  resample :: "image \<Rightarrow> int \<Rightarrow> int \<Rightarrow> error + pixel list"
    \<comment> \<open>the pixels of \<^verbatim>\<open>image.resize((w, h), LANCZOS)\<close>, or its exception\<close>
  encode :: "image \<Rightarrow> string option \<Rightarrow> bool \<Rightarrow> pydict \<Rightarrow> error + byte list"
    \<comment> \<open>the bytes \<^verbatim>\<open>image.save(fp, format=.., [save_all=True], **kwargs)\<close> produces\<close>
  paste_alpha :: "image \<Rightarrow> image \<Rightarrow> pixel list"
    \<comment> \<open>the pixels of \<open>background\<close> after
        \<^verbatim>\<open>background.paste(image, mask=image.split()[-1])\<close>\<close>
  new_palette :: "string \<Rightarrow> pixel list option"
    \<comment> \<open>the palette of a fresh \<^verbatim>\<open>Image.new(mode, size)\<close>\<close>
  pow_half :: "pyfloat \<Rightarrow> pyfloat"
    \<comment> \<open>\<^verbatim>\<open>x ** 0.5\<close> for \<open>x \<ge> 0\<close>\<close>
  write_file :: "string \<Rightarrow> error option"
    \<comment> \<open>the exception, if any, of creating and writing the file at a path\<close>
  path_stem :: "string \<Rightarrow> string"
    \<comment> \<open>\<^verbatim>\<open>Path(p).stem\<close>\<close>
  path_join :: "string \<Rightarrow> string \<Rightarrow> string"
    \<comment> \<open>\<^verbatim>\<open>Path(d) / f\<close>\<close>
  uuid4_hex :: string
  time_millis :: int
    \<comment> \<open>\<^verbatim>\<open>int(time.time() * 1000)\<close>\<close>

text \<open>
  \<^verbatim>\<open>image.resize((new_width, new_height), Image.Resampling.LANCZOS)\<close>: a new image of
  the requested size and the same mode, palette and \<^verbatim>\<open>info\<close>; \<^verbatim>\<open>format\<close> is \<^verbatim>\<open>None\<close> on it
  and it is a plain \<^verbatim>\<open>Image\<close>, without \<^verbatim>\<open>is_animated\<close>.  The requested size may be
  any value the settings held.
\<close>

definition image_resize :: "env \<Rightarrow> image \<Rightarrow> pyval \<Rightarrow> pyval \<Rightarrow> error + image" where
  "image_resize c img new_width new_height =
     bind_err (as_num new_width) (\<lambda>w.
     bind_err (as_num new_height) (\<lambda>h.
     bind_err (resample c img w h) (\<lambda>px.
       Inr (img\<lparr>width := w, height := h, format := None, data := px,
                  is_animated := None\<rparr>))))"

text \<open>
  \<^verbatim>\<open>
  def _auto_orient(self, image):
      try:
          return ImageOps.exif_transpose(image)
      except Exception as e:
          logger.warning(f"Could not auto-orient image: {e}")
          return image
  \<close>
\<close>

definition auto_orient :: "env \<Rightarrow> image \<Rightarrow> image" where
  "auto_orient c img = (case exif_transpose c img of Inl e \<Rightarrow> img | Inr i \<Rightarrow> i)"

section \<open>Resize primitives\<close>

text \<open>
  \<^verbatim>\<open>
  def _resize_image(self, image, resize_settings):
      target_width = resize_settings.get('width')
      target_height = resize_settings.get('height')
      maintain_aspect = resize_settings.get('maintainAspectRatio', True)
      if not target_width and not target_height:
          return image
      current_width, current_height = image.size
      if maintain_aspect:
          if target_width and target_height:
              ratio = min(target_width / current_width, target_height / current_height)
              new_width = int(current_width * ratio)
              new_height = int(current_height * ratio)
          elif target_width:
              ratio = target_width / current_width
              new_width = target_width
              new_height = int(current_height * ratio)
          else:
              ratio = target_height / current_height
              new_width = int(current_width * ratio)
              new_height = target_height
      else:
          new_width = target_width or current_width
          new_height = target_height or current_height
      return image.resize((new_width, new_height), Image.Resampling.LANCZOS)
  \<close>
  \<open>new_dimensions\<close> is the part between the early return and the final call.
\<close>

definition new_dimensions ::
  "pyval \<Rightarrow> pyval \<Rightarrow> pyval \<Rightarrow> int \<Rightarrow> int \<Rightarrow> error + pyval \<times> pyval" where
  "new_dimensions target_width target_height maintain_aspect current_width current_height =
     (if truthy maintain_aspect then
        (if truthy target_width \<and> truthy target_height then
           bind_err (val_truediv target_width current_width) (\<lambda>r1.
           bind_err (val_truediv target_height current_height) (\<lambda>r2.
           let ratio = min r1 r2 in
           bind_err (int_mul_float current_width ratio) (\<lambda>new_width.
           bind_err (int_mul_float current_height ratio) (\<lambda>new_height.
             Inr (PInt new_width, PInt new_height)))))
         else if truthy target_width then
           bind_err (val_truediv target_width current_width) (\<lambda>ratio.
           bind_err (int_mul_float current_height ratio) (\<lambda>new_height.
             Inr (target_width, PInt new_height)))
         else
           bind_err (val_truediv target_height current_height) (\<lambda>ratio.
           bind_err (int_mul_float current_width ratio) (\<lambda>new_width.
             Inr (PInt new_width, target_height))))
      else
        Inr (if truthy target_width then target_width else PInt current_width,
             if truthy target_height then target_height else PInt current_height))"

definition resize_image :: "env \<Rightarrow> image \<Rightarrow> pyval \<Rightarrow> error + image" where
  "resize_image c img resize_settings =
     bind_err (val_get resize_settings ''width'') (\<lambda>target_width.
     bind_err (val_get resize_settings ''height'') (\<lambda>target_height.
     bind_err (val_get_default resize_settings ''maintainAspectRatio'' (PBool True))
       (\<lambda>maintain_aspect.
     if \<not> truthy target_width \<and> \<not> truthy target_height then Inr img
     else
       bind_err (new_dimensions target_width target_height maintain_aspect
                   (width img) (height img))
         (\<lambda>(new_width, new_height). image_resize c img new_width new_height))))"

text \<open>
  \<^verbatim>\<open>
  def _compress_image(self, image, compression_settings):
      max_width = compression_settings.get('maxWidth', 1920)
      max_height = compression_settings.get('maxHeight', 1080)
      current_width, current_height = image.size
      if current_width <= max_width and current_height <= max_height:
          return image
      ratio = min(max_width / current_width, max_height / current_height)
      new_width = int(current_width * ratio)
      new_height = int(current_height * ratio)
      return image.resize((new_width, new_height), Image.Resampling.LANCZOS)
  \<close>
  \<open>scale_to_fit\<close> is the part after the early return; the pre-resize of the auto mode
  is the same computation with both bounds 2048.
\<close>

definition scale_to_fit :: "env \<Rightarrow> image \<Rightarrow> pyval \<Rightarrow> pyval \<Rightarrow> error + image" where
  "scale_to_fit c img max_width max_height =
     (let current_width = width img; current_height = height img in
      bind_err (val_truediv max_width current_width) (\<lambda>r1.
      bind_err (val_truediv max_height current_height) (\<lambda>r2.
      let ratio = min r1 r2 in
      bind_err (int_mul_float current_width ratio) (\<lambda>new_width.
      bind_err (int_mul_float current_height ratio) (\<lambda>new_height.
        image_resize c img (PInt new_width) (PInt new_height))))))"

definition compress_image :: "env \<Rightarrow> image \<Rightarrow> pyval \<Rightarrow> error + image" where
  "compress_image c img compression_settings =
     bind_err (val_get_default compression_settings ''maxWidth'' (PInt 1920)) (\<lambda>max_width.
     bind_err (val_get_default compression_settings ''maxHeight'' (PInt 1080)) (\<lambda>max_height.
     bind_err (as_num max_width) (\<lambda>mw.
     if width img \<le> mw then
       bind_err (as_num max_height) (\<lambda>mh.
       if height img \<le> mh then Inr img else scale_to_fit c img max_width max_height)
     else scale_to_fit c img max_width max_height)))"

section \<open>Save parameters and the measured size\<close>

text \<open>
  \<^verbatim>\<open>
  def _get_save_kwargs(self, output_format, settings):
      kwargs = {}
      if output_format in ('JPEG', 'WEBP'):
          kwargs['quality'] = settings['compression']['quality']
          kwargs['optimize'] = True
          if output_format == 'JPEG':
              kwargs['progressive'] = settings['optimization']['progressive']
      elif output_format == 'PNG':
          kwargs['optimize'] = True
      return kwargs
  \<close>
\<close>

definition get_save_kwargs :: "string option \<Rightarrow> pydict \<Rightarrow> error + pydict" where
  "get_save_kwargs output_format settings =
     (if output_format = Some ''JPEG'' \<or> output_format = Some ''WEBP'' then
        bind_err (get_nested settings ''compression'' ''quality'') (\<lambda>q.
        let kwargs = [(''quality'', q), (''optimize'', PBool True)] in
        if output_format = Some ''JPEG'' then
          bind_err (get_nested settings ''optimization'' ''progressive'') (\<lambda>p.
            Inr (kwargs @ [(''progressive'', p)]))
        else Inr kwargs)
      else if output_format = Some ''PNG'' then Inr [(''optimize'', PBool True)]
      else Inr [])"

text \<open>
  \<^verbatim>\<open>
  def _get_image_size(self, image):
      img_bytes = io.BytesIO()
      image.save(img_bytes, format=image.format or 'JPEG')
      return len(img_bytes.getvalue())
  \<close>
\<close>

definition format_or_jpeg :: "string option \<Rightarrow> string" where
  "format_or_jpeg f = (case f of None \<Rightarrow> ''JPEG'' | Some x \<Rightarrow> if x = [] then ''JPEG'' else x)"

definition get_image_size :: "env \<Rightarrow> image \<Rightarrow> error + nat" where
  "get_image_size c img =
     bind_err (encode c img (Some (format_or_jpeg (format img))) False [])
       (\<lambda>img_bytes. Inr (length img_bytes))"

section \<open>Auto-mode optimizer: \<^verbatim>\<open>_process_auto_mode\<close>\<close>

text \<open>
  One round of the search loop:
  \<^verbatim>\<open>
  test_buffer = io.BytesIO()
  save_kwargs = {'quality': quality, 'optimize': True, 'format': 'WEBP'}
  image.save(test_buffer, **save_kwargs)
  current_size = len(test_buffer.getvalue())
  if current_size <= target_size:
      break
  elif current_size > target_size * 1.5 and quality > 30:
      quality = max(30, quality - 15)
  elif current_size > target_size and quality > 20:
      quality = max(20, quality - 5)
  else:
      current_width, current_height = image.size
      scale_factor = (target_size / current_size) ** 0.5
      new_width = max(300, int(current_width * scale_factor))
      new_height = max(200, int(current_height * scale_factor))
      if new_width < current_width and new_height < current_height:
          image = image.resize((new_width, new_height), Image.Resampling.LANCZOS)
          quality = min(85, quality + 10)
      else:
          break
  \<close>
  The round raises (\<open>Inl\<close>), breaks (\<open>Inr None\<close>) or hands the next round its image and
  quality.  A negative base makes \<^verbatim>\<open>** 0.5\<close> a complex number, on which \<^verbatim>\<open>int()\<close>
  raises \<^verbatim>\<open>TypeError\<close>.
\<close>

definition auto_round :: "env \<Rightarrow> pyval \<Rightarrow> image \<Rightarrow> int \<Rightarrow> error + (image \<times> int) option" where
  "auto_round c target_size img quality =
     bind_err (encode c img (Some ''WEBP'') False
                 [(''quality'', PInt quality), (''optimize'', PBool True)]) (\<lambda>test_buffer.
     let current_size = int (length test_buffer) in
     bind_err (as_num target_size) (\<lambda>target.
     if current_size \<le> target then Inr None
     else
       bind_err (float_of_int target) (\<lambda>tf.
       if int_gt_float current_size (float_mul tf (3 / 2)) \<and> 30 < quality then
         Inr (Some (img, max 30 (quality - 15)))
       else if target < current_size \<and> 20 < quality then
         Inr (Some (img, max 20 (quality - 5)))
       else
         let current_width = width img; current_height = height img in
         bind_err (int_truediv target current_size) (\<lambda>r.
         if r < 0 then Inl (TypeError ''int() argument must be a real number, not complex'')
         else
           let scale_factor = pow_half c r in
           bind_err (int_mul_float current_width scale_factor) (\<lambda>w.
           bind_err (int_mul_float current_height scale_factor) (\<lambda>h.
           let new_width = max 300 w; new_height = max 200 h in
           if new_width < current_width \<and> new_height < current_height then
             bind_err (image_resize c img (PInt new_width) (PInt new_height)) (\<lambda>img'.
               Inr (Some (img', min 85 (quality + 10))))
           else Inr None))))))"

text \<open>
  \<^verbatim>\<open>for iteration in range(max_iterations)\<close>: the third argument counts the rounds
  left, the last one the calls of \<^verbatim>\<open>image.save\<close> made so far, which the result
  reports beside the outcome.
\<close>

fun auto_loop ::
  "env \<Rightarrow> pyval \<Rightarrow> nat \<Rightarrow> image \<Rightarrow> int \<Rightarrow> nat \<Rightarrow> nat \<times> (error + image \<times> int)" where
  "auto_loop c target_size 0 img quality saves = (saves, Inr (img, quality))"
| "auto_loop c target_size (Suc remaining) img quality saves =
     (case auto_round c target_size img quality of
        Inl e \<Rightarrow> (Suc saves, Inl e)
      | Inr None \<Rightarrow> (Suc saves, Inr (img, quality))
      | Inr (Some (img', quality')) \<Rightarrow>
          auto_loop c target_size remaining img' quality' (Suc saves))"

text \<open>
  The pre-resize:
  \<^verbatim>\<open>
  width, height = image.size
  if width > 2048 or height > 2048:
      ratio = min(2048 / width, 2048 / height)
      new_width = int(width * ratio)
      new_height = int(height * ratio)
      image = image.resize((new_width, new_height), Image.Resampling.LANCZOS)
  \<close>
\<close>

definition pre_resize :: "env \<Rightarrow> image \<Rightarrow> error + image" where
  "pre_resize c img =
     (if 2048 < width img \<or> 2048 < height img
      then scale_to_fit c img (PInt 2048) (PInt 2048)
      else Inr img)"

text \<open>
  \<^verbatim>\<open>
  def _process_auto_mode(self, image, settings):
      target_size = settings.get('targetFileSize', 150 * 1024)
      settings['format']['outputFormat'] = 'webp'
      settings['optimization']['removeMetadata'] = True
      settings['optimization']['autoOrient'] = True
      settings['optimization']['progressive'] = True
      image = self._auto_orient(image)
      quality = 95
      max_iterations = 10
      (pre-resize)
      (search loop)
      settings['compression']['quality'] = quality
      settings['compression']['enabled'] = True
      return image, settings
  \<close>
\<close>

definition max_iterations :: nat where
  "max_iterations = 10"

definition process_auto_mode :: "env \<Rightarrow> image \<Rightarrow> pydict \<Rightarrow> error + image \<times> pydict" where
  "process_auto_mode c img settings =
     (let target_size = dict_get_default settings ''targetFileSize'' (PInt (150 * 1024)) in
      bind_err (set_nested settings ''format'' ''outputFormat'' (PStr ''webp'')) (\<lambda>s1.
      bind_err (set_nested s1 ''optimization'' ''removeMetadata'' (PBool True)) (\<lambda>s2.
      bind_err (set_nested s2 ''optimization'' ''autoOrient'' (PBool True)) (\<lambda>s3.
      bind_err (set_nested s3 ''optimization'' ''progressive'' (PBool True)) (\<lambda>s4.
      bind_err (pre_resize c (auto_orient c img)) (\<lambda>img2.
      bind_err (snd (auto_loop c target_size max_iterations img2 95 0)) (\<lambda>(img3, quality).
      bind_err (set_nested s4 ''compression'' ''quality'' (PInt quality)) (\<lambda>s5.
      bind_err (set_nested s5 ''compression'' ''enabled'' (PBool True)) (\<lambda>s6.
        Inr (img3, s6))))))))))"

section \<open>Pipeline orchestrator: \<^verbatim>\<open>process_image\<close>\<close>

text \<open>
  \<^verbatim>\<open>Image.new(mode, size, ...)\<close> followed by the call that fills its pixels: a plain
  image with no format, an empty \<^verbatim>\<open>info\<close> and the palette every new image of that mode
  starts with.  Neither \<^verbatim>\<open>putdata\<close> nor \<^verbatim>\<open>paste\<close> touches the palette: the palette of
  the image the pixels come from is not carried over.
\<close>

definition image_new :: "env \<Rightarrow> string \<Rightarrow> int \<Rightarrow> int \<Rightarrow> pixel list \<Rightarrow> image" where
  "image_new c m w h px =
     \<lparr>width = w, height = h, mode = m, format = None, info = [],
      palette = new_palette c m, data = px, is_animated = None\<rparr>"

text \<open>
  The metadata step of \<^verbatim>\<open>process_image\<close>:
  \<^verbatim>\<open>
  if image.mode in ('RGBA', 'LA'):
      background = Image.new('RGB', image.size, (255, 255, 255))
      if image.mode == 'RGBA':
          background.paste(image, mask=image.split()[-1])
      else:
          background.paste(image, mask=image.split()[-1])
      image = background
  else:
      new_image = Image.new(image.mode, image.size)
      new_image.putdata(list(image.getdata()))
      image = new_image
  \<close>
\<close>

definition white_background :: "env \<Rightarrow> int \<Rightarrow> int \<Rightarrow> image" where
  "white_background c w h =
     image_new c ''RGB'' w h (replicate (nat (w * h)) [255, 255, 255])"

definition remove_metadata :: "env \<Rightarrow> image \<Rightarrow> image" where
  "remove_metadata c img =
     (if mode img = ''RGBA'' \<or> mode img = ''LA''
      then (let background = white_background c (width img) (height img)
            in background\<lparr>data := paste_alpha c background img\<rparr>)
      else image_new c (mode img) (width img) (height img) (data img))"

text \<open>
  The manual branch of \<^verbatim>\<open>process_image\<close>:
  \<^verbatim>\<open>
  if processing_settings['optimization']['autoOrient']:
      image = self._auto_orient(image)
  if processing_settings['resize']['enabled']:
      image = self._resize_image(image, processing_settings['resize'])
  if processing_settings['compression']['enabled']:
      image = self._compress_image(image, processing_settings['compression'])
  \<close>
\<close>

definition manual_mode :: "env \<Rightarrow> image \<Rightarrow> pydict \<Rightarrow> error + image" where
  "manual_mode c img settings =
     bind_err (get_nested settings ''optimization'' ''autoOrient'') (\<lambda>ao.
     let img1 = (if truthy ao then auto_orient c img else img) in
     bind_err (get_nested settings ''resize'' ''enabled'') (\<lambda>re.
     bind_err (if truthy re
               then bind_err (dict_item settings ''resize'') (\<lambda>rs. resize_image c img1 rs)
               else Inr img1) (\<lambda>img2.
     bind_err (get_nested settings ''compression'' ''enabled'') (\<lambda>ce.
     if truthy ce
     then bind_err (dict_item settings ''compression'') (\<lambda>cs. compress_image c img2 cs)
     else Inr img2))))"

text \<open>\<^verbatim>\<open>str(n)\<close> for an \<^verbatim>\<open>int\<close>, as the f-string of the file name needs it.\<close>

fun show_nat :: "nat \<Rightarrow> string" where
  "show_nat n =
     (if n < 10 then [''0123456789'' ! n]
      else show_nat (n div 10) @ [''0123456789'' ! (n mod 10)])"

definition show_int :: "int \<Rightarrow> string" where
  "show_int i = (if i < 0 then ''-'' @ show_nat (nat (- i)) else show_nat (nat i))"

text \<open>
  \<^verbatim>\<open>
  if not output_filename:
      timestamp = int(time.time() * 1000)
      extension = output_format.lower() if output_format != 'JPEG' else 'jpg'
      output_filename = f"{original_filename}_{timestamp}.{extension}"
  \<close>
\<close>

definition make_output_filename ::
  "env \<Rightarrow> string option \<Rightarrow> string \<Rightarrow> string option \<Rightarrow> error + string" where
  "make_output_filename c output_filename original_filename output_format =
     (let generated =
        bind_err (if output_format \<noteq> Some ''JPEG''
                  then (case output_format of
                          None \<Rightarrow> Inl (AttributeError ''object has no attribute lower'')
                        | Some f \<Rightarrow> Inr (lower f))
                  else Inr ''jpg'') (\<lambda>extension.
          Inr (original_filename @ ''_'' @ show_int (time_millis c) @ ''.'' @ extension))
      in case output_filename of
           None \<Rightarrow> generated
         | Some f \<Rightarrow> if f = [] then generated else Inr f)"

text \<open>
  \<^verbatim>\<open>round((1 - final_file_size / original_file_size) * 100, 2) if original_file_size > 0 else 0\<close>
\<close>

definition compression_ratio :: "nat \<Rightarrow> nat \<Rightarrow> error + pyfloat" where
  "compression_ratio final_file_size original_file_size =
     (if 0 < original_file_size then
        bind_err (int_truediv (int final_file_size) (int original_file_size)) (\<lambda>q.
          Inr (py_round2 (float_mul (float_sub 1 q) 100)))
      else Inr 0)"

text \<open>The result dictionary of a successful run, and the two shapes of the result.\<close>

record success_result =
  res_output_path :: string
  res_output_filename :: string
  res_original_format :: "string option"
  res_original_size :: "int \<times> int"
  res_original_file_size :: nat
  res_processed_format :: "string option"
  res_processed_size :: "int \<times> int"
  res_processed_file_size :: nat
  res_settings_used :: pydict
  res_compression_ratio :: pyfloat

datatype result =
    Success success_result
  | Failure (res_error: string) (res_error_type: string)

text \<open>
  The settings \<^verbatim>\<open>process_image\<close> works with:
  \<^verbatim>\<open>
  processing_settings = {**self.DEFAULT_SETTINGS}
  if settings:
      processing_settings = self._deep_merge(processing_settings, settings)
  \<close>
\<close>

definition merged_settings :: "pydict option \<Rightarrow> pydict" where
  "merged_settings settings =
     (case settings of
        None \<Rightarrow> DEFAULT_SETTINGS
      | Some s \<Rightarrow> if s = [] then DEFAULT_SETTINGS else deep_merge DEFAULT_SETTINGS s)"

text \<open>
  The dispatch on the mode: the image and the settings the rest of the pipeline sees.
  \<^verbatim>\<open>
  if processing_settings.get('mode') == 'auto':
      image, processing_settings = self._process_auto_mode(image, processing_settings)
  else:
      (manual branch)
  \<close>
\<close>

definition run_mode :: "env \<Rightarrow> image \<Rightarrow> pydict \<Rightarrow> error + image \<times> pydict" where
  "run_mode c img processing_settings =
     (if dict_get processing_settings ''mode'' = PStr ''auto''
      then process_auto_mode c img processing_settings
      else bind_err (manual_mode c img processing_settings)
             (\<lambda>img'. Inr (img', processing_settings)))"

text \<open>
  The image handed to the final \<^verbatim>\<open>image.save\<close>:
  \<^verbatim>\<open>
  if processing_settings['optimization']['removeMetadata']:
      (metadata step)
  \<close>
\<close>

definition final_image :: "env \<Rightarrow> image \<Rightarrow> pydict \<Rightarrow> error + image" where
  "final_image c img processing_settings =
     bind_err (get_nested processing_settings ''optimization'' ''removeMetadata'') (\<lambda>rm.
       Inr (if truthy rm then remove_metadata c img else img))"

text \<open>
  The body of the \<^verbatim>\<open>try\<close> block of \<^verbatim>\<open>process_image\<close>, in the order of the source:
  merge, open, measure the original, run the mode, resolve the format, name the file,
  derive the save parameters, strip metadata, save, measure, build the result.  It
  returns the result dictionary and the bytes written to \<^verbatim>\<open>output_path\<close>.
\<close>

definition process_image_body ::
  "env \<Rightarrow> string \<Rightarrow> input \<Rightarrow> pydict option \<Rightarrow> string option
     \<Rightarrow> error + success_result \<times> byte list" where
  "process_image_body c output_dir input_path settings output_filename =
     (let processing_settings = merged_settings settings in
      bind_err (image_open c input_path) (\<lambda>img0.
      let original_filename =
            (case input_path of
               BytesIO b \<Rightarrow> ''image_'' @ uuid4_hex c
             | Path p \<Rightarrow> path_stem c p);
          original_format = format img0;
          original_size = (width img0, height img0) in
      bind_err (get_image_size c img0) (\<lambda>original_file_size.
      bind_err (run_mode c img0 processing_settings) (\<lambda>(img1, processing_settings).
      bind_err (dict_item processing_settings ''format'') (\<lambda>fs.
      bind_err (determine_output_format original_format fs) (\<lambda>output_format.
      bind_err (make_output_filename c output_filename original_filename output_format)
        (\<lambda>filename.
      let output_path = path_join c output_dir filename in
      bind_err (get_save_kwargs output_format processing_settings) (\<lambda>save_kwargs.
      bind_err (final_image c img1 processing_settings) (\<lambda>img2.
      let save_all = (output_format = Some ''GIF'' \<and> is_animated img2 = Some True) in
      (case write_file c output_path of
         Some e \<Rightarrow> Inl e
       | None \<Rightarrow>
      bind_err (encode c img2 output_format save_all save_kwargs) (\<lambda>written.
      let final_file_size = length written in
      bind_err (compression_ratio final_file_size original_file_size) (\<lambda>ratio.
        Inr (\<lparr>res_output_path = output_path,
              res_output_filename = filename,
              res_original_format = original_format,
              res_original_size = original_size,
              res_original_file_size = original_file_size,
              res_processed_format = output_format,
              res_processed_size = (width img2, height img2),
              res_processed_file_size = final_file_size,
              res_settings_used = processing_settings,
              res_compression_ratio = ratio\<rparr>, written)))))))))))))"

text \<open>
  \<^verbatim>\<open>
  def process_image(self, input_path, settings=None, output_filename=None):
      try:
          (body)
          return result
      except Exception as e:
          logger.error(f"Error processing image: {str(e)}")
          return {'success': False, 'error': str(e), 'error_type': type(e).__name__}
  \<close>
\<close>

definition process_image ::
  "env \<Rightarrow> string \<Rightarrow> input \<Rightarrow> pydict option \<Rightarrow> string option \<Rightarrow> result" where
  "process_image c output_dir input_path settings output_filename =
     (case process_image_body c output_dir input_path settings output_filename of
        Inl e \<Rightarrow> Failure (error_str e) (error_type_name e)
      | Inr (r, written) \<Rightarrow> Success r)"

section \<open>Settings as objects\<close>

text \<open>
  A Python dictionary is an object, and a dictionary that holds a dictionary holds a
  reference to it; two dictionaries may hold a reference to the same one.  The
  definitions above follow the values that each step sees and returns.  This section
  follows the objects: which dictionary each assignment of the service writes to.  The
  store is the list of the dictionaries allocated so far, a reference is an index into
  it, and allocation appends.
\<close>

type_synonym addr = nat

datatype hval = HNone | HBool bool | HInt int | HStr string | HRef addr

type_synonym hdict = "(string \<times> hval) list"
type_synonym heap = "hdict list"

text \<open>
  The dictionary a reference denotes (a reference always denotes an allocated object;
  an index that is not allocated reads as the empty dictionary), allocation of a new
  dictionary, and \<^verbatim>\<open>d[k] = v\<close> on the dictionary at reference \<open>a\<close>.
\<close>

definition hdict_at :: "heap \<Rightarrow> addr \<Rightarrow> hdict" where
  "hdict_at h a = (if a < length h then h ! a else [])"

definition halloc :: "heap \<Rightarrow> hdict \<Rightarrow> heap \<times> addr" where
  "halloc h d = (h @ [d], length h)"

definition hset_item :: "heap \<Rightarrow> addr \<Rightarrow> string \<Rightarrow> hval \<Rightarrow> heap" where
  "hset_item h a k v = h[a := AList.update k v (hdict_at h a)]"

text \<open>
  A dictionary display such as the class attribute \<^verbatim>\<open>DEFAULT_SETTINGS = {...}\<close>
  allocates the nested dictionaries, in the order of the text, and then the dictionary
  itself.
\<close>

fun hstore :: "heap \<Rightarrow> pyval \<Rightarrow> heap \<times> hval"
  and hstore_items :: "heap \<Rightarrow> pydict \<Rightarrow> heap \<times> hdict" where
  "hstore h PNone = (h, HNone)"
| "hstore h (PBool b) = (h, HBool b)"
| "hstore h (PInt n) = (h, HInt n)"
| "hstore h (PStr s) = (h, HStr s)"
| "hstore h (PDict d) =
     (case hstore_items h d of (h1, items) \<Rightarrow>
        (case halloc h1 items of (h2, a) \<Rightarrow> (h2, HRef a)))"
| "hstore_items h [] = (h, [])"
| "hstore_items h ((k, v) # rest) =
     (case hstore h v of (h1, hv) \<Rightarrow>
        (case hstore_items h1 rest of (h2, items) \<Rightarrow> (h2, (k, hv) # items)))"

text \<open>
  The value that a reference denotes in a store, read to a given depth of nesting.
\<close>

fun hview :: "nat \<Rightarrow> heap \<Rightarrow> hval \<Rightarrow> pyval option"
  and hview_items :: "nat \<Rightarrow> heap \<Rightarrow> hdict \<Rightarrow> pydict option" where
  "hview n h HNone = Some PNone"
| "hview n h (HBool b) = Some (PBool b)"
| "hview n h (HInt i) = Some (PInt i)"
| "hview n h (HStr s) = Some (PStr s)"
| "hview 0 h (HRef a) = None"
| "hview (Suc n) h (HRef a) = map_option PDict (hview_items n h (hdict_at h a))"
| "hview_items n h [] = Some []"
| "hview_items n h ((k, v) # rest) =
     (case hview n h v of
        None \<Rightarrow> None
      | Some pv \<Rightarrow>
          (case hview_items n h rest of None \<Rightarrow> None | Some r \<Rightarrow> Some ((k, pv) # r)))"

text \<open>
  \<^verbatim>\<open>{**d}\<close> and \<^verbatim>\<open>d.copy()\<close>: a new dictionary with the items of \<open>d\<close>.  The copy is
  shallow: a nested dictionary is shared between \<open>d\<close> and the copy.
\<close>

definition dict_copy :: "heap \<Rightarrow> addr \<Rightarrow> heap \<times> addr" where
  "dict_copy h a = halloc h (hdict_at h a)"

text \<open>
  \<^verbatim>\<open>_deep_merge\<close> on objects:
  \<^verbatim>\<open>
  result = base.copy()
  for key, value in override.items():
      if key in result and isinstance(result[key], dict) and isinstance(value, dict):
          result[key] = self._deep_merge(result[key], value)
      else:
          result[key] = value
  return result
  \<close>
  The first argument is the recursion depth that the interpreter has left; a deeper
  nesting raises \<^verbatim>\<open>RecursionError\<close>.  A nested dictionary of \<open>base\<close> whose key the
  override does not mention stays shared between \<open>base\<close> and the result.
\<close>

fun deep_merge_h :: "nat \<Rightarrow> heap \<Rightarrow> addr \<Rightarrow> addr \<Rightarrow> error + heap \<times> addr"
  and merge_items_h :: "nat \<Rightarrow> heap \<Rightarrow> addr \<Rightarrow> hdict \<Rightarrow> error + heap" where
  "deep_merge_h 0 h base override =
     Inl (ExternalError ''RecursionError'' ''maximum recursion depth exceeded'')"
| "deep_merge_h (Suc n) h base override =
     (case dict_copy h base of (h1, result) \<Rightarrow>
        bind_err (merge_items_h n h1 result (hdict_at h1 override)) (\<lambda>h2. Inr (h2, result)))"
| "merge_items_h n h result [] = Inr h"
| "merge_items_h n h result ((key, HRef ov) # rest) =
     (case map_of (hdict_at h result) key of
        Some (HRef b) \<Rightarrow>
          bind_err (deep_merge_h n h b ov) (\<lambda>(h1, m).
            merge_items_h n (hset_item h1 result key (HRef m)) result rest)
      | _ \<Rightarrow> merge_items_h n (hset_item h result key (HRef ov)) result rest)"
| "merge_items_h n h result ((key, v) # rest) =
     merge_items_h n (hset_item h result key v) result rest"

text \<open>\<^verbatim>\<open>settings[k1][k2] = v\<close> on the dictionary at reference \<open>s\<close>.\<close>

definition hset_nested :: "heap \<Rightarrow> addr \<Rightarrow> string \<Rightarrow> string \<Rightarrow> hval \<Rightarrow> error + heap" where
  "hset_nested h s k1 k2 v =
     (case map_of (hdict_at h s) k1 of
        None \<Rightarrow> Inl (KeyError k1)
      | Some (HRef a) \<Rightarrow> Inr (hset_item h a k2 v)
      | Some _ \<Rightarrow> Inl (TypeError ''object does not support item assignment''))"

text \<open>
  A stored value as an operand of arithmetic and comparisons, where every dictionary
  raises \<^verbatim>\<open>TypeError\<close> whatever it holds.
\<close>

fun operand :: "hval \<Rightarrow> pyval" where
  "operand HNone = PNone"
| "operand (HBool b) = PBool b"
| "operand (HInt n) = PInt n"
| "operand (HStr s) = PStr s"
| "operand (HRef a) = PDict []"

text \<open>
  \<^verbatim>\<open>_process_auto_mode\<close> on objects: the six assignments write to the nested
  dictionaries that the settings dictionary refers to.  The result is the store the
  call leaves behind, also when it raises, and the image or the exception.
\<close>

definition process_auto_mode_h :: "env \<Rightarrow> image \<Rightarrow> heap \<Rightarrow> addr \<Rightarrow> heap \<times> (error + image)" where
  "process_auto_mode_h c img h settings =
     (let target_size =
            (case map_of (hdict_at h settings) ''targetFileSize'' of
               None \<Rightarrow> PInt (150 * 1024)
             | Some v \<Rightarrow> operand v) in
      case hset_nested h settings ''format'' ''outputFormat'' (HStr ''webp'') of
        Inl e \<Rightarrow> (h, Inl e)
      | Inr h1 \<Rightarrow>
      (case hset_nested h1 settings ''optimization'' ''removeMetadata'' (HBool True) of
        Inl e \<Rightarrow> (h1, Inl e)
      | Inr h2 \<Rightarrow>
      (case hset_nested h2 settings ''optimization'' ''autoOrient'' (HBool True) of
        Inl e \<Rightarrow> (h2, Inl e)
      | Inr h3 \<Rightarrow>
      (case hset_nested h3 settings ''optimization'' ''progressive'' (HBool True) of
        Inl e \<Rightarrow> (h3, Inl e)
      | Inr h4 \<Rightarrow>
      (case bind_err (pre_resize c (auto_orient c img))
              (\<lambda>img2. snd (auto_loop c target_size max_iterations img2 95 0)) of
        Inl e \<Rightarrow> (h4, Inl e)
      | Inr (img3, quality) \<Rightarrow>
      (case hset_nested h4 settings ''compression'' ''quality'' (HInt quality) of
        Inl e \<Rightarrow> (h4, Inl e)
      | Inr h5 \<Rightarrow>
      (case hset_nested h5 settings ''compression'' ''enabled'' (HBool True) of
        Inl e \<Rightarrow> (h5, Inl e)
      | Inr h6 \<Rightarrow> (h6, Inr img3))))))))"

text \<open>
  The store that a call \<^verbatim>\<open>process_image(input_path, settings)\<close> leaves behind, where
  \<open>defaults\<close> is the reference of the class attribute \<^verbatim>\<open>DEFAULT_SETTINGS\<close>:
  \<^verbatim>\<open>
  processing_settings = {**self.DEFAULT_SETTINGS}
  if settings:
      processing_settings = self._deep_merge(processing_settings, settings)
  (open the image, measure it)
  if processing_settings.get('mode') == 'auto':
      image, processing_settings = self._process_auto_mode(image, processing_settings)
  else:
      (manual branch)
  \<close>
  The manual branch and the rest of the body read the settings and assign to none of
  them; an exception ends the call with the store as it is.  A merge that raises has
  written to dictionaries of its own only.
\<close>

definition process_image_heap ::
  "nat \<Rightarrow> env \<Rightarrow> heap \<Rightarrow> addr \<Rightarrow> input \<Rightarrow> addr option \<Rightarrow> heap" where
  "process_image_heap depth c h defaults input_path settings =
     (case dict_copy h defaults of (h1, copied) \<Rightarrow>
      case (case settings of
              None \<Rightarrow> Inr (h1, copied)
            | Some s \<Rightarrow> if hdict_at h1 s = [] then Inr (h1, copied)
                        else deep_merge_h depth h1 copied s) of
        Inl e \<Rightarrow> h1
      | Inr (h2, processing_settings) \<Rightarrow>
          (case bind_err (image_open c input_path) (\<lambda>img0.
                  bind_err (get_image_size c img0) (\<lambda>n. Inr img0)) of
             Inl e \<Rightarrow> h2
           | Inr img0 \<Rightarrow>
               if map_of (hdict_at h2 processing_settings) ''mode'' = Some (HStr ''auto'')
               then fst (process_auto_mode_h c img0 h2 processing_settings)
               else h2))"

section \<open>A sample environment\<close>

text \<open>
  One concrete behaviour of the external library, on which the theorems below are run:
  a 1600 by 1200 JPEG, read from the file \<^verbatim>\<open>photo.jpg\<close> or from a stream of three
  bytes, whose encodings take \<open>width * height * quality div 400\<close> bytes
  (quality 100 where the format has none), no EXIF rotation, a resampler that accepts
  positive sizes, and a file system that accepts every write.  \<open>pow_half\<close> is only
  given at the arguments the runs reach.
\<close>

definition zero_bytes :: "nat \<Rightarrow> byte list" where
  "zero_bytes n = replicate n 0"

definition sample_image :: image where
  "sample_image =
     \<lparr>width = 1600, height = 1200, mode = ''RGB'', format = Some ''JPEG'',
      info = [(''exif'', ''Orientation=1'')], palette = None, data = [],
      is_animated = None\<rparr>"

definition sample_quality :: "pydict \<Rightarrow> int" where
  "sample_quality kw = (case map_of kw ''quality'' of Some (PInt q) \<Rightarrow> q | _ \<Rightarrow> 100)"

definition sample_blend :: "nat \<Rightarrow> nat \<Rightarrow> nat \<Rightarrow> nat" where
  "sample_blend b v a = (v * a + b * (255 - a)) div 255"

fun sample_paste :: "pixel \<times> pixel \<Rightarrow> pixel" where
  "sample_paste ([br, bg, bb], [r, g, b, a]) =
     [sample_blend br r a, sample_blend bg g a, sample_blend bb b a]"
| "sample_paste ([br, bg, bb], [l, a]) =
     [sample_blend br l a, sample_blend bg l a, sample_blend bb l a]"
| "sample_paste (bpx, px) = bpx"

definition sample_env :: env where
  "sample_env =
     \<lparr>image_open = (\<lambda>i. case i of
          Path p \<Rightarrow> if p = ''photo.jpg'' then Inr sample_image
                    else Inl (ExternalError ''FileNotFoundError'' ''No such file or directory'')
        | BytesIO b \<Rightarrow>
            if b = [255, 216, 255] then Inr sample_image
            else Inl (ExternalError ''UnidentifiedImageError'' ''cannot identify image file'')),
      exif_transpose = (\<lambda>img. Inr img),
      resample = (\<lambda>img w h. if 0 < w \<and> 0 < h then Inr (data img)
                   else Inl (ExternalError ''ValueError'' ''height and width must be > 0'')),
      encode = (\<lambda>img fmt save_all kw.
                  Inr (zero_bytes (nat (width img * height img * sample_quality kw div 400)))),
      paste_alpha = (\<lambda>background img. map sample_paste (zip (data background) (data img))),
      new_palette = (\<lambda>m. if m = ''P'' \<or> m = ''PA'' then Some [] else None),
      pow_half = (\<lambda>x. if x = 1 / 4 then 1 / 2 else if x = 0 then 0 else 1),
      write_file = (\<lambda>p. None),
      path_stem = (\<lambda>p. takeWhile (\<lambda>ch. ch \<noteq> CHR ''.'') p),
      path_join = (\<lambda>d f. d @ ''/'' @ f),
      uuid4_hex = ''0123456789abcdef0123456789abcdef'',
      time_millis = 1700000000000\<rparr>"

definition small_image :: image where
  "small_image = sample_image\<lparr>width := 800, height := 600, format := None\<rparr>"

text \<open>
  A caller who asks for PNG output and switches the three optimization flags off, with
  a target of 24000 bytes; the settings after the merge; and the settings the auto mode
  returns for them.
\<close>

definition caller_override :: pydict where
  "caller_override =
     [(''targetFileSize'', PInt 24000),
      (''format'', PDict [(''outputFormat'', PStr ''png'')]),
      (''optimization'', PDict
         [(''removeMetadata'', PBool False),
          (''progressive'', PBool False),
          (''autoOrient'', PBool False)])]"

definition caller_merged :: pydict where
  "caller_merged =
     [(''mode'', PStr ''auto''),
      (''targetFileSize'', PInt 24000),
      (''compression'', PDict
         [(''enabled'', PBool True),
          (''quality'', PInt 85),
          (''maxWidth'', PInt 1920),
          (''maxHeight'', PInt 1080)]),
      (''format'', PDict
         [(''outputFormat'', PStr ''png''),
          (''convertToWebp'', PBool True)]),
      (''optimization'', PDict
         [(''removeMetadata'', PBool False),
          (''progressive'', PBool False),
          (''autoOrient'', PBool False)]),
      (''resize'', PDict
         [(''enabled'', PBool False),
          (''width'', PNone),
          (''height'', PNone),
          (''maintainAspectRatio'', PBool True)])]"

definition caller_result :: pydict where
  "caller_result =
     [(''mode'', PStr ''auto''),
      (''targetFileSize'', PInt 24000),
      (''compression'', PDict
         [(''enabled'', PBool True),
          (''quality'', PInt 20),
          (''maxWidth'', PInt 1920),
          (''maxHeight'', PInt 1080)]),
      (''format'', PDict
         [(''outputFormat'', PStr ''webp''),
          (''convertToWebp'', PBool True)]),
      (''optimization'', PDict
         [(''removeMetadata'', PBool True),
          (''progressive'', PBool True),
          (''autoOrient'', PBool True)]),
      (''resize'', PDict
         [(''enabled'', PBool False),
          (''width'', PNone),
          (''height'', PNone),
          (''maintainAspectRatio'', PBool True)])]"

text \<open>The result of the sample run for this caller.\<close>

definition caller_run :: success_result where
  "caller_run =
     \<lparr>res_output_path = ''out/result.webp'',
      res_output_filename = ''result.webp'',
      res_original_format = Some ''JPEG'',
      res_original_size = (1600, 1200),
      res_original_file_size = 480000,
      res_processed_format = Some ''WEBP'',
      res_processed_size = (800, 600),
      res_processed_file_size = 24000,
      res_settings_used = caller_result,
      res_compression_ratio = 95\<rparr>"

text \<open>
  A caller of the manual mode: quality 25 and a resize to width 800, the rest as the
  defaults have it.
\<close>

definition manual_override :: pydict where
  "manual_override =
     [(''mode'', PStr ''manual''),
      (''compression'', PDict [(''quality'', PInt 25)]),
      (''resize'', PDict [(''enabled'', PBool True), (''width'', PInt 800)])]"

definition manual_merged :: pydict where
  "manual_merged =
     [(''mode'', PStr ''manual''),
      (''targetFileSize'', PInt 153600),
      (''compression'', PDict
         [(''enabled'', PBool True),
          (''quality'', PInt 25),
          (''maxWidth'', PInt 1920),
          (''maxHeight'', PInt 1080)]),
      (''format'', PDict
         [(''outputFormat'', PStr ''webp''),
          (''convertToWebp'', PBool True)]),
      (''optimization'', PDict
         [(''removeMetadata'', PBool True),
          (''progressive'', PBool True),
          (''autoOrient'', PBool True)]),
      (''resize'', PDict
         [(''enabled'', PBool True),
          (''width'', PInt 800),
          (''height'', PNone),
          (''maintainAspectRatio'', PBool True)])]"

definition manual_result :: success_result where
  "manual_result =
     \<lparr>res_output_path = ''out/result.webp'',
      res_output_filename = ''result.webp'',
      res_original_format = Some ''JPEG'',
      res_original_size = (1600, 1200),
      res_original_file_size = 480000,
      res_processed_format = Some ''WEBP'',
      res_processed_size = (800, 600),
      res_processed_file_size = 30000,
      res_settings_used = manual_merged,
      res_compression_ratio = 375 / 4\<rparr>"


text \<open>
  Two palette images of two pixels over the same two colours: one of mode \<^verbatim>\<open>P\<close>, and
  one of mode \<^verbatim>\<open>PA\<close> whose first pixel is opaque and whose second is fully
  transparent.
\<close>

definition p_image :: image where
  "p_image =
     \<lparr>width = 2, height = 1, mode = ''P'', format = Some ''PNG'', info = [],
      palette = Some [[10, 20, 30], [40, 50, 60]], data = [[0], [1]],
      is_animated = None\<rparr>"


text \<open>
  The scenario of the specification: manual mode, a resize to width 800 that keeps the
  aspect ratio, everything else as the defaults have it; the settings after the merge;
  and the result of the sample run under them.
\<close>

definition scenario_override :: pydict where
  "scenario_override =
     [(''mode'', PStr ''manual''),
      (''resize'', PDict [(''enabled'', PBool True), (''width'', PInt 800),
                          (''maintainAspectRatio'', PBool True)])]"

definition scenario_merged :: pydict where
  "scenario_merged =
     [(''mode'', PStr ''manual''),
      (''targetFileSize'', PInt 153600),
      (''compression'', PDict
         [(''enabled'', PBool True),
          (''quality'', PInt 85),
          (''maxWidth'', PInt 1920),
          (''maxHeight'', PInt 1080)]),
      (''format'', PDict
         [(''outputFormat'', PStr ''webp''),
          (''convertToWebp'', PBool True)]),
      (''optimization'', PDict
         [(''removeMetadata'', PBool True),
          (''progressive'', PBool True),
          (''autoOrient'', PBool True)]),
      (''resize'', PDict
         [(''enabled'', PBool True),
          (''width'', PInt 800),
          (''height'', PNone),
          (''maintainAspectRatio'', PBool True)])]"

definition scenario_result :: success_result where
  "scenario_result =
     \<lparr>res_output_path = ''out/result.webp'',
      res_output_filename = ''result.webp'',
      res_original_format = Some ''JPEG'',
      res_original_size = (1600, 1200),
      res_original_file_size = 480000,
      res_processed_format = Some ''WEBP'',
      res_processed_size = (800, 600),
      res_processed_file_size = 102000,
      res_settings_used = scenario_merged,
      res_compression_ratio = 315 / 4\<rparr>"

text \<open>
  The sample environment for a photo whose EXIF orientation swaps the axes, as a phone
  held upright records it: \<^verbatim>\<open>exif_transpose\<close> turns the 1600 by 1200 image into a
  1200 by 1600 one.  Below, what the scenario's run yields there.
\<close>

definition rotating_env :: env where
  "rotating_env =
     sample_env\<lparr>exif_transpose := (\<lambda>img. Inr (img\<lparr>width := height img, height := width img\<rparr>))\<rparr>"

definition rotated_small :: image where
  "rotated_small = sample_image\<lparr>width := 800, height := 1066, format := None\<rparr>"

definition rotated_result :: success_result where
  "rotated_result =
     \<lparr>res_output_path = ''out/result.webp'',
      res_output_filename = ''result.webp'',
      res_original_format = Some ''JPEG'',
      res_original_size = (1600, 1200),
      res_original_file_size = 480000,
      res_processed_format = Some ''WEBP'',
      res_processed_size = (800, 1066),
      res_processed_file_size = 181220,
      res_settings_used = scenario_merged,
      res_compression_ratio = 249 / 4\<rparr>"

text \<open>The same environment with a file system that refuses every write.\<close>

definition readonly_env :: env where
  "readonly_env =
     sample_env\<lparr>write_file := (\<lambda>p. Some (ExternalError ''PermissionError'' ''Permission denied''))\<rparr>"

text \<open>
  An environment whose encoder is sensitive to the format: the encoded size of a picture
  is its area times the quality, divided by 300 for \<^verbatim>\<open>PNG\<close>, 400 for \<^verbatim>\<open>JPEG\<close>,
  700 for \<^verbatim>\<open>WEBP\<close> and 200 for anything else.  It opens two files: a \<^verbatim>\<open>PNG\<close>
  picture, and the same picture from a decoder that sets no format.  The two results
  are those of the sample runs on them, in manual mode with a resize to width 800.
\<close>

definition format_divisor :: "string option \<Rightarrow> int" where
  "format_divisor fmt =
     (if fmt = Some ''PNG'' then 300 else if fmt = Some ''JPEG'' then 400
      else if fmt = Some ''WEBP'' then 700 else 200)"

definition png_image :: image where
  "png_image = sample_image\<lparr>format := Some ''PNG''\<rparr>"

definition unknown_image :: image where
  "unknown_image = sample_image\<lparr>format := None\<rparr>"

definition format_env :: env where
  "format_env =
     sample_env
       \<lparr>image_open := (\<lambda>i. if i = Path ''logo.png'' then Inr png_image
                          else if i = Path ''scan.dat'' then Inr unknown_image
                          else Inl (ExternalError ''FileNotFoundError''
                                      ''No such file or directory'')),
        encode := (\<lambda>img fmt save_all kw.
                     Inr (zero_bytes (nat (width img * height img * sample_quality kw
                                             div format_divisor fmt))))\<rparr>"

definition png_run :: success_result where
  "png_run =
     \<lparr>res_output_path = ''out/logo.webp'',
      res_output_filename = ''logo.webp'',
      res_original_format = Some ''PNG'',
      res_original_size = (1600, 1200),
      res_original_file_size = 640000,
      res_processed_format = Some ''WEBP'',
      res_processed_size = (800, 600),
      res_processed_file_size = 58285,
      res_settings_used = scenario_merged,
      res_compression_ratio = 6395815158307881 / 70368744177664\<rparr>"

definition unknown_run :: success_result where
  "unknown_run =
     \<lparr>res_output_path = ''out/scan.webp'',
      res_output_filename = ''scan.webp'',
      res_original_format = None,
      res_original_size = (1600, 1200),
      res_original_file_size = 480000,
      res_processed_format = Some ''WEBP'',
      res_processed_size = (800, 600),
      res_processed_file_size = 58285,
      res_settings_used = scenario_merged,
      res_compression_ratio = 6182597863449559 / 70368744177664\<rparr>"

text \<open>
  The store that holds the class attribute \<^verbatim>\<open>DEFAULT_SETTINGS\<close> and nothing else,
  the reference of the attribute in it, and the value of the attribute after one call
  of \<^verbatim>\<open>process_image\<close> with no settings in the sample environment.
\<close>

definition class_heap :: heap where
  "class_heap = fst (hstore [] (PDict DEFAULT_SETTINGS))"

definition defaults_ref :: addr where
  "defaults_ref = 4"

definition defaults_after :: pydict where
  "defaults_after =
     [(''mode'', PStr ''auto''),
      (''targetFileSize'', PInt 153600),
      (''compression'', PDict
         [(''enabled'', PBool True),
          (''quality'', PInt 30),
          (''maxWidth'', PInt 1920),
          (''maxHeight'', PInt 1080)]),
      (''format'', PDict
         [(''outputFormat'', PStr ''webp''),
          (''convertToWebp'', PBool True)]),
      (''optimization'', PDict
         [(''removeMetadata'', PBool True),
          (''progressive'', PBool True),
          (''autoOrient'', PBool True)]),
      (''resize'', PDict
         [(''enabled'', PBool False),
          (''width'', PNone),
          (''height'', PNone),
          (''maintainAspectRatio'', PBool True)])]"

section \<open>Verified properties\<close>

subsection \<open>Sequencing, dictionaries and evaluation\<close>

lemma bind_err_simps [simp]:
  "bind_err (Inr x) f = f x" "bind_err (Inl e) f = Inl e"
  by (simp_all add: bind_err_def)

lemma bind_err_weak_cong: "m = m' \<Longrightarrow> bind_err m f = bind_err m' f"
  by simp

lemma bind_err_Inr:
  "bind_err m f = Inr y \<longleftrightarrow> (\<exists>x. m = Inr x \<and> f x = Inr y)"
  by (cases m) simp_all

lemma bind_err_Inl:
  "bind_err m f = Inl e \<longleftrightarrow> m = Inl e \<or> (\<exists>x. m = Inr x \<and> f x = Inl e)"
  by (cases m) simp_all

lemma set_nested_get:
  "set_nested s k1 k2 v = Inr s' \<Longrightarrow>
   get_nested s' a b = (if a = k1 \<and> b = k2 then Inr v else get_nested s a b)"
  by (auto simp: set_nested_def get_nested_def dict_item_def bind_err_def update_conv'
           split: option.splits pyval.splits if_splits)

lemma set_nested_map_of:
  "set_nested s k1 k2 v = Inr s' \<Longrightarrow> a \<noteq> k1 \<Longrightarrow> map_of s' a = map_of s a"
  by (auto simp: set_nested_def update_conv' split: option.splits pyval.splits)

lemma length_zero_bytes [simp]: "length (zero_bytes n) = n"
  by (simp add: zero_bytes_def)

lemma bitlen_numeral_simps:
  "bitlen 1 = 1"
  "bitlen (numeral (Num.Bit0 n)) = bitlen (numeral n) + 1"
  "bitlen (numeral (Num.Bit1 n)) = bitlen (numeral n) + 1"
  apply (simp add: bitlen_alt_def)
  apply (subst compute_bitlen) apply simp
  apply (subst compute_bitlen) apply simp
  done

lemma floor_rat_numeral_div:
  "\<lfloor>numeral a / numeral b :: rat\<rfloor> = numeral a div numeral b"
  by (metis floor_divide_of_int_eq of_int_numeral)

lemma ceiling_rat_numeral_div:
  "\<lceil>numeral a / numeral b :: rat\<rceil> = - (- numeral a div numeral b)"
  unfolding ceiling_def
  by (metis divide_minus_left floor_divide_of_int_eq of_int_neg_numeral of_int_numeral)

lemmas float_eval = fl_def ilog2_def bitlen_numeral_simps round_half_even_def Let_def
  floor_rat_numeral_div ceiling_rat_numeral_div power_int_minus float_of_int_def int_truediv_def float_mul_def float_sub_def to_double_def
  float_inf_def int_of_float_def int_gt_float_def

lemma float_of_int_samples:
  "float_of_int 1600 = Inr 1600" "float_of_int 1200 = Inr 1200"
  "float_of_int 24000 = Inr 24000"
  by (simp_all add: float_eval)

lemma float_mul_samples:
  "float_mul 1600 (1 / 2) = 800" "float_mul 1200 (1 / 2) = 600"
  "float_mul 24000 (3 / 2) = 36000"
  by (simp_all add: float_eval)

lemma int_of_float_samples:
  "int_of_float 800 = Inr 800" "int_of_float 600 = Inr 600"
  by (simp_all add: float_eval)

lemma int_mul_float_samples:
  "int_mul_float 1600 (1 / 2) = Inr 800" "int_mul_float 1200 (1 / 2) = Inr 600"
  by (simp_all add: int_mul_float_def float_of_int_samples float_mul_samples
        int_of_float_samples)

lemma int_truediv_samples:
  "int_truediv 24000 96000 = Inr (1 / 4)" "int_truediv 800 1600 = Inr (1 / 2)"
  by (simp_all add: float_eval)

lemma int_gt_float_36000: "int_gt_float n 36000 = (36000 < n)"
  by (simp add: int_gt_float_def float_inf_def)

subsection \<open>The orchestrator's successful runs\<close>

lemma process_image_body_success:
  assumes "process_image_body c output_dir input_path settings output_filename = Inr (r, written)"
  obtains img0 n img1 ps fs fmt filename kw img2 ratio where
    "image_open c input_path = Inr img0"
    "get_image_size c img0 = Inr n"
    "run_mode c img0 (merged_settings settings) = Inr (img1, ps)"
    "dict_item ps ''format'' = Inr fs"
    "determine_output_format (format img0) fs = Inr fmt"
    "make_output_filename c output_filename
       (case input_path of BytesIO b \<Rightarrow> ''image_'' @ uuid4_hex c | Path p \<Rightarrow> path_stem c p) fmt
       = Inr filename"
    "get_save_kwargs fmt ps = Inr kw"
    "final_image c img1 ps = Inr img2"
    "write_file c (path_join c output_dir filename) = None"
    "encode c img2 fmt (fmt = Some ''GIF'' \<and> is_animated img2 = Some True) kw = Inr written"
    "compression_ratio (length written) n = Inr ratio"
    "r = \<lparr>res_output_path = path_join c output_dir filename,
           res_output_filename = filename,
           res_original_format = format img0,
           res_original_size = (width img0, height img0),
           res_original_file_size = n,
           res_processed_format = fmt,
           res_processed_size = (width img2, height img2),
           res_processed_file_size = length written,
           res_settings_used = ps,
           res_compression_ratio = ratio\<rparr>"
  using assms
  unfolding process_image_body_def Let_def
  by (auto simp: bind_err_Inr split: option.splits prod.splits)

subsection \<open>Settings resolver\<close>

lemma deep_merge_absent:
  "k \<notin> fst ` set ov \<Longrightarrow> map_of (deep_merge D ov) k = map_of D k"
  by (induction D ov rule: deep_merge.induct)
     (auto simp: update_conv' split: option.splits pyval.splits)

lemma deep_merge_present:
  "distinct (map fst ov) \<Longrightarrow> map_of ov k = Some v \<Longrightarrow>
   map_of (deep_merge D ov) k =
     (case (map_of D k, v) of
        (Some (PDict b), PDict ov') \<Rightarrow> Some (PDict (deep_merge b ov'))
      | _ \<Rightarrow> Some v)"
  by (induction D ov rule: deep_merge.induct)
     (auto simp: update_conv' deep_merge_absent split: option.splits pyval.splits if_splits)

text \<open>
  Claim C6.  Merging the empty override returns the defaults.  A key that the override
  does not mention keeps its default value.  A key that the override (a dictionary, so
  with distinct keys) binds to \<open>v\<close> ends as the recursive merge when both the default
  and \<open>v\<close> are dictionaries, and as \<open>v\<close> itself otherwise.  Applied to the nested
  merge, the second part says that the siblings of an overridden leaf keep their
  default values.
\<close>

theorem deep_merge_laws:
  "deep_merge D [] = D \<and>
   (k \<notin> fst ` set ov \<longrightarrow> map_of (deep_merge D ov) k = map_of D k) \<and>
   (distinct (map fst ov) \<and> map_of ov k' = Some v \<longrightarrow>
      map_of (deep_merge D ov) k' =
        (case (map_of D k', v) of
           (Some (PDict b), PDict ov') \<Rightarrow> Some (PDict (deep_merge b ov'))
         | _ \<Rightarrow> Some v))"
proof (intro conjI impI)
  show "deep_merge D [] = D" by simp
next
  assume "k \<notin> fst ` set ov"
  then show "map_of (deep_merge D ov) k = map_of D k" by (rule deep_merge_absent)
next
  assume "distinct (map fst ov) \<and> map_of ov k' = Some v"
  then show "map_of (deep_merge D ov) k' =
        (case (map_of D k', v) of
           (Some (PDict b), PDict ov') \<Rightarrow> Some (PDict (deep_merge b ov'))
         | _ \<Rightarrow> Some v)"
    using deep_merge_present [of ov k' v D] by blast
qed

theorem deep_merge_laws_witness:
  "deep_merge DEFAULT_SETTINGS [] = DEFAULT_SETTINGS \<and>
   ''mode'' \<notin> fst ` set [(''format'', PDict [(''outputFormat'', PStr ''png'')])] \<and>
   map_of (deep_merge DEFAULT_SETTINGS [(''format'', PDict [(''outputFormat'', PStr ''png'')])])
     ''mode'' = Some (PStr ''auto'') \<and>
   distinct (map fst [(''format'', PDict [(''outputFormat'', PStr ''png'')])]) \<and>
   map_of [(''format'', PDict [(''outputFormat'', PStr ''png'')])] ''format''
     = Some (PDict [(''outputFormat'', PStr ''png'')]) \<and>
   map_of (deep_merge DEFAULT_SETTINGS [(''format'', PDict [(''outputFormat'', PStr ''png'')])])
     ''format''
     = Some (PDict [(''outputFormat'', PStr ''png''), (''convertToWebp'', PBool True)])"
  using deep_merge_laws [of DEFAULT_SETTINGS "''mode''"
          "[(''format'', PDict [(''outputFormat'', PStr ''png'')])]" "''format''"
          "PDict [(''outputFormat'', PStr ''png'')]"]
  by (simp add: DEFAULT_SETTINGS_def)

subsection \<open>Format resolver\<close>

lemma determine_output_format_string:
  "map_of d ''outputFormat'' = Some (PStr r) \<Longrightarrow> fs = PDict d \<Longrightarrow>
   determine_output_format X fs =
     Inr (if lower r = ''original''
          then (case X of None \<Rightarrow> Some ''JPEG''
                | Some x \<Rightarrow> if x = [] then Some ''JPEG'' else Some x)
          else if lower r = ''jpeg'' \<or> lower r = ''jpg'' then Some ''JPEG''
          else if lower r = ''png'' then Some ''PNG''
          else if lower r = ''webp'' then Some ''WEBP''
          else if lower r = ''gif'' then Some ''GIF''
          else Some ''WEBP'')"
  by (simp add: determine_output_format_def dict_get_default_def bind_err_def OUTPUT_FORMATS_def)

text \<open>
  Claim C7.  Let the format settings request the name \<open>r\<close>, compared after
  \<^verbatim>\<open>lower()\<close>.  For \<^verbatim>\<open>original\<close> the result is the original format \<open>x\<close> itself when
  it is a non-empty string, and \<^verbatim>\<open>JPEG\<close> when it is \<^verbatim>\<open>None\<close> or empty.  The names
  \<^verbatim>\<open>jpeg\<close> and \<^verbatim>\<open>jpg\<close> give \<^verbatim>\<open>JPEG\<close>, \<^verbatim>\<open>png\<close> gives \<^verbatim>\<open>PNG\<close>, \<^verbatim>\<open>webp\<close>
  gives \<^verbatim>\<open>WEBP\<close>, \<^verbatim>\<open>gif\<close> gives \<^verbatim>\<open>GIF\<close>, and every other name gives
  \<^verbatim>\<open>WEBP\<close>.
\<close>

theorem determine_output_format_cases:
  "map_of d ''outputFormat'' = Some (PStr r) \<Longrightarrow> fs = PDict d \<Longrightarrow>
   (lower r = ''original'' \<and> x \<noteq> [] \<longrightarrow>
      determine_output_format (Some x) fs = Inr (Some x)) \<and>
   (lower r = ''original'' \<longrightarrow>
      determine_output_format None fs = Inr (Some ''JPEG'') \<and>
      determine_output_format (Some []) fs = Inr (Some ''JPEG'')) \<and>
   (lower r = ''jpeg'' \<or> lower r = ''jpg'' \<longrightarrow>
      determine_output_format X fs = Inr (Some ''JPEG'')) \<and>
   (lower r = ''png'' \<longrightarrow> determine_output_format X fs = Inr (Some ''PNG'')) \<and>
   (lower r = ''webp'' \<longrightarrow> determine_output_format X fs = Inr (Some ''WEBP'')) \<and>
   (lower r = ''gif'' \<longrightarrow> determine_output_format X fs = Inr (Some ''GIF'')) \<and>
   (lower r \<notin> {''original'', ''jpeg'', ''jpg'', ''png'', ''webp'', ''gif''} \<longrightarrow>
      determine_output_format X fs = Inr (Some ''WEBP''))"
proof -
  assume r: "map_of d ''outputFormat'' = Some (PStr r)" "fs = PDict d"
  have a: "lower r = ''original'' \<and> x \<noteq> [] \<longrightarrow>
      determine_output_format (Some x) fs = Inr (Some x)"
    by (simp add: determine_output_format_string [OF r])
  have b: "lower r = ''original'' \<longrightarrow>
      determine_output_format None fs = Inr (Some ''JPEG'') \<and>
      determine_output_format (Some []) fs = Inr (Some ''JPEG'')"
    by (simp add: determine_output_format_string [OF r])
  have c: "lower r = ''jpeg'' \<or> lower r = ''jpg'' \<longrightarrow>
      determine_output_format X fs = Inr (Some ''JPEG'')"
    by (auto simp add: determine_output_format_string [OF r])
  have d: "lower r = ''png'' \<longrightarrow> determine_output_format X fs = Inr (Some ''PNG'')"
    by (simp add: determine_output_format_string [OF r])
  have e: "lower r = ''webp'' \<longrightarrow> determine_output_format X fs = Inr (Some ''WEBP'')"
    by (simp add: determine_output_format_string [OF r])
  have f: "lower r = ''gif'' \<longrightarrow> determine_output_format X fs = Inr (Some ''GIF'')"
    by (simp add: determine_output_format_string [OF r])
  have g: "lower r \<notin> {''original'', ''jpeg'', ''jpg'', ''png'', ''webp'', ''gif''} \<longrightarrow>
      determine_output_format X fs = Inr (Some ''WEBP'')"
    by (simp add: determine_output_format_string [OF r])
  from a b c d e f g show ?thesis by blast
qed

theorem determine_output_format_cases_witness:
  "map_of [(''outputFormat'', PStr ''Original'')] ''outputFormat'' = Some (PStr ''Original'') \<and>
   lower ''Original'' = ''original'' \<and>
   determine_output_format (Some ''PNG'') (PDict [(''outputFormat'', PStr ''Original'')])
     = Inr (Some ''PNG'') \<and>
   determine_output_format None (PDict [(''outputFormat'', PStr ''Original'')])
     = Inr (Some ''JPEG'')"
  using determine_output_format_cases
          [of "[(''outputFormat'', PStr ''Original'')]" "''Original''"
              "PDict [(''outputFormat'', PStr ''Original'')]" "''PNG''"]
  by (simp add: lower_def lower_char_def)

subsection \<open>Auto-mode optimizer\<close>

lemma image_resize_size:
  "image_resize c img (PInt w) (PInt h) = Inr img' \<Longrightarrow> width img' = w \<and> height img' = h"
  by (auto simp: image_resize_def bind_err_Inr)

lemma auto_round_step:
  assumes "auto_round c t img q = Inr (Some (img', q'))" "20 \<le> q"
  shows "20 \<le> q' \<and>
         (300 \<le> width img \<and> 200 \<le> height img \<longrightarrow> 300 \<le> width img' \<and> 200 \<le> height img') \<and>
         (width img < 300 \<or> height img < 200 \<longrightarrow> img' = img)"
  using assms
  by (auto simp: auto_round_def bind_err_Inr Let_def split: if_splits dest!: image_resize_size)

lemma auto_loop_inv:
  "snd (auto_loop c t n img q k) = Inr (img', q') \<Longrightarrow> 20 \<le> q \<Longrightarrow>
   20 \<le> q' \<and>
   (300 \<le> width img \<and> 200 \<le> height img \<longrightarrow> 300 \<le> width img' \<and> 200 \<le> height img') \<and>
   (width img < 300 \<or> height img < 200 \<longrightarrow> img' = img)"
proof (induction n arbitrary: img q k)
  case 0
  then show ?case by simp
next
  case (Suc n)
  show ?case
  proof (cases "auto_round c t img q")
    case (Inl e)
    with Suc.prems show ?thesis by simp
  next
    case (Inr r)
    show ?thesis
    proof (cases r)
      case None
      with Inr Suc.prems show ?thesis by simp
    next
      case (Some p)
      obtain img1 q1 where p: "p = (img1, q1)" by (cases p)
      from Inr Some p have step: "auto_round c t img q = Inr (Some (img1, q1))" by simp
      from auto_round_step [OF step Suc.prems(2)]
      have s: "20 \<le> q1"
        "300 \<le> width img \<and> 200 \<le> height img \<longrightarrow> 300 \<le> width img1 \<and> 200 \<le> height img1"
        "width img < 300 \<or> height img < 200 \<longrightarrow> img1 = img" by blast+
      from Suc.prems(1) step
      have rest: "snd (auto_loop c t n img1 q1 (Suc k)) = Inr (img', q')" by simp
      from Suc.IH [OF rest s(1)] s(2,3) show ?thesis by (metis not_le)
    qed
  qed
qed

lemma auto_loop_saves: "fst (auto_loop c t n img q k) \<le> k + n"
proof (induction n arbitrary: img q k)
  case 0
  show ?case by simp
next
  case (Suc n)
  show ?case
  proof (cases "auto_round c t img q")
    case (Inl e)
    then show ?thesis by simp
  next
    case (Inr r)
    show ?thesis
    proof (cases r)
      case None
      with Inr show ?thesis by simp
    next
      case (Some p)
      obtain img1 q1 where p: "p = (img1, q1)" by (cases p)
      from Suc.IH [of img1 q1 "Suc k"] Inr Some p show ?thesis by simp
    qed
  qed
qed

text \<open>The sample run: seven quality cuts, one resize to 800 by 600, two more cuts.\<close>

lemmas sample_eval = auto_round_def sample_env_def sample_image_def sample_quality_def
  image_resize_def small_image_def int_truediv_samples int_mul_float_samples
  float_of_int_samples float_mul_samples int_gt_float_36000 Let_def

lemma sample_rounds:
  "auto_round sample_env (PInt 24000) sample_image 95 = Inr (Some (sample_image, 80))"
  "auto_round sample_env (PInt 24000) sample_image 80 = Inr (Some (sample_image, 65))"
  "auto_round sample_env (PInt 24000) sample_image 65 = Inr (Some (sample_image, 50))"
  "auto_round sample_env (PInt 24000) sample_image 50 = Inr (Some (sample_image, 35))"
  "auto_round sample_env (PInt 24000) sample_image 35 = Inr (Some (sample_image, 30))"
  "auto_round sample_env (PInt 24000) sample_image 30 = Inr (Some (sample_image, 25))"
  "auto_round sample_env (PInt 24000) sample_image 25 = Inr (Some (sample_image, 20))"
  "auto_round sample_env (PInt 24000) sample_image 20 = Inr (Some (small_image, 30))"
  "auto_round sample_env (PInt 24000) small_image 30 = Inr (Some (small_image, 25))"
  "auto_round sample_env (PInt 24000) small_image 25 = Inr (Some (small_image, 20))"
  by (simp_all add: sample_eval cong: bind_err_weak_cong)

lemma sample_loop:
  "auto_loop sample_env (PInt 24000) max_iterations sample_image 95 0 =
     (10, Inr (small_image, 20))"
  by (simp add: max_iterations_def eval_nat_numeral sample_rounds)

lemma caller_merged: "merged_settings (Some caller_override) = caller_merged"
  by (simp add: merged_settings_def caller_override_def caller_merged_def DEFAULT_SETTINGS_def)

lemma sample_pre:
  "pre_resize sample_env (auto_orient sample_env sample_image) = Inr sample_image"
  by (simp add: pre_resize_def auto_orient_def sample_env_def sample_image_def)

lemma sample_auto:
  "process_auto_mode sample_env sample_image caller_merged = Inr (small_image, caller_result)"
  by (simp add: process_auto_mode_def sample_pre sample_loop caller_merged_def
        dict_get_default_def set_nested_def caller_result_def
      cong: bind_err_weak_cong)

text \<open>
  Claim C1.  When \<^verbatim>\<open>_process_auto_mode\<close> returns, the quality it has written to
  \<^verbatim>\<open>settings['compression']['quality']\<close> is at least 20.  Let \<open>img0\<close> be the image with
  which the search loop starts (after auto-orientation and the pre-resize).  If \<open>img0\<close> is
  at least 300 wide and 200 high, so is the returned image; if \<open>img0\<close> is narrower than
  300 or lower than 200, the returned image has the dimensions of \<open>img0\<close>.
\<close>

theorem auto_mode_floors:
  "process_auto_mode c img settings = Inr (img', settings') \<Longrightarrow>
   pre_resize c (auto_orient c img) = Inr img0 \<Longrightarrow>
   (\<exists>q. get_nested settings' ''compression'' ''quality'' = Inr (PInt q) \<and> 20 \<le> q) \<and>
   (300 \<le> width img0 \<and> 200 \<le> height img0 \<longrightarrow> 300 \<le> width img' \<and> 200 \<le> height img') \<and>
   (width img0 < 300 \<or> height img0 < 200 \<longrightarrow>
      width img' = width img0 \<and> height img' = height img0)"
proof -
  assume run: "process_auto_mode c img settings = Inr (img', settings')"
    and pre: "pre_resize c (auto_orient c img) = Inr img0"
  from run pre obtain s4 q s5 where
    loop: "snd (auto_loop c (dict_get_default settings ''targetFileSize'' (PInt (150 * 1024)))
                  max_iterations img0 95 0) = Inr (img', q)"
    and s5: "set_nested s4 ''compression'' ''quality'' (PInt q) = Inr s5"
    and s6: "set_nested s5 ''compression'' ''enabled'' (PBool True) = Inr settings'"
    unfolding process_auto_mode_def Let_def
    by (auto simp: bind_err_Inr split: prod.splits)
  from auto_loop_inv [OF loop]
  have inv: "20 \<le> q"
    "300 \<le> width img0 \<and> 200 \<le> height img0 \<longrightarrow> 300 \<le> width img' \<and> 200 \<le> height img'"
    "width img0 < 300 \<or> height img0 < 200 \<longrightarrow> img' = img0"
    by simp_all
  have "get_nested settings' ''compression'' ''quality'' = Inr (PInt q)"
    using set_nested_get [OF s6, of "''compression''" "''quality''"]
          set_nested_get [OF s5, of "''compression''" "''quality''"]
    by simp
  with inv show ?thesis by auto
qed

theorem auto_mode_floors_witness:
  "process_auto_mode sample_env sample_image caller_merged = Inr (small_image, caller_result) \<and>
   pre_resize sample_env (auto_orient sample_env sample_image) = Inr sample_image \<and>
   get_nested caller_result ''compression'' ''quality'' = Inr (PInt 20) \<and>
   300 \<le> width sample_image \<and> 200 \<le> height sample_image \<and>
   width small_image = 800 \<and> height small_image = 600"
proof -
  have dims: "300 \<le> width sample_image \<and> 200 \<le> height sample_image \<and>
      width small_image = 800 \<and> height small_image = 600"
    by (simp add: sample_image_def small_image_def)
  have q: "get_nested caller_result ''compression'' ''quality'' = Inr (PInt 20)"
    by (simp add: caller_result_def get_nested_def dict_item_def)
  from auto_mode_floors [OF sample_auto sample_pre] sample_auto sample_pre dims q
  show ?thesis by simp
qed

text \<open>
  Claim C2.  For every behaviour of the image library, every image, every starting
  quality and every value of \<^verbatim>\<open>targetFileSize\<close> (an integer of either sign, or any
  other value), the search loop ends, by returning or by raising, after at most 10 calls
  of \<^verbatim>\<open>image.save\<close>.
\<close>

theorem auto_loop_bounded:
  "fst (auto_loop c target_size max_iterations img quality 0) \<le> 10"
  using auto_loop_saves [of c target_size max_iterations img quality 0]
  by (simp add: max_iterations_def)

lemma process_auto_mode_forced:
  "process_auto_mode c img settings = Inr (img', settings') \<Longrightarrow>
   get_nested settings' ''format'' ''outputFormat'' = Inr (PStr ''webp'') \<and>
   get_nested settings' ''optimization'' ''removeMetadata'' = Inr (PBool True) \<and>
   get_nested settings' ''optimization'' ''autoOrient'' = Inr (PBool True) \<and>
   get_nested settings' ''optimization'' ''progressive'' = Inr (PBool True) \<and>
   (\<exists>fs. dict_item settings' ''format'' = Inr fs \<and>
         determine_output_format original_format fs = Inr (Some ''WEBP''))"
proof -
  assume run: "process_auto_mode c img settings = Inr (img', settings')"
  then obtain s1 s2 s3 s4 s5 q where
    s: "set_nested settings ''format'' ''outputFormat'' (PStr ''webp'') = Inr s1"
       "set_nested s1 ''optimization'' ''removeMetadata'' (PBool True) = Inr s2"
       "set_nested s2 ''optimization'' ''autoOrient'' (PBool True) = Inr s3"
       "set_nested s3 ''optimization'' ''progressive'' (PBool True) = Inr s4"
       "set_nested s4 ''compression'' ''quality'' (PInt q) = Inr s5"
       "set_nested s5 ''compression'' ''enabled'' (PBool True) = Inr settings'"
    unfolding process_auto_mode_def Let_def
    by (auto simp: bind_err_Inr split: prod.splits)
  have g: "get_nested settings' ''format'' ''outputFormat'' = Inr (PStr ''webp'')"
    "get_nested settings' ''optimization'' ''removeMetadata'' = Inr (PBool True)"
    "get_nested settings' ''optimization'' ''autoOrient'' = Inr (PBool True)"
    "get_nested settings' ''optimization'' ''progressive'' = Inr (PBool True)"
    by (simp_all add: set_nested_get [OF s(6)] set_nested_get [OF s(5)] set_nested_get [OF s(4)]
          set_nested_get [OF s(3)] set_nested_get [OF s(2)] set_nested_get [OF s(1)])
  from g(1) obtain fs where fs: "dict_item settings' ''format'' = Inr fs"
    "subscript fs ''outputFormat'' = Inr (PStr ''webp'')"
    by (auto simp: get_nested_def bind_err_Inr)
  from fs(2) obtain d where d: "fs = PDict d" "map_of d ''outputFormat'' = Some (PStr ''webp'')"
    by (cases fs) (auto simp: dict_item_def split: option.splits)
  have "determine_output_format original_format fs = Inr (Some ''WEBP'')"
    using d by (simp add: determine_output_format_def dict_get_default_def OUTPUT_FORMATS_def
        lower_def lower_char_def)
  with g fs(1) show ?thesis by blast
qed

subsection \<open>Pipeline orchestrator\<close>

lemma manual_merged: "merged_settings (Some manual_override) = manual_merged"
  by (simp add: merged_settings_def manual_override_def manual_merged_def DEFAULT_SETTINGS_def)

lemma sample_open: "image_open sample_env (BytesIO [255, 216, 255]) = Inr sample_image"
  by (simp add: sample_env_def)

lemma sample_size: "get_image_size sample_env sample_image = Inr 480000"
  by (simp add: get_image_size_def sample_env_def sample_image_def sample_quality_def)

lemma val_truediv_sample: "val_truediv (PInt 800) 1600 = Inr (1 / 2)"
  by (simp add: val_truediv_def int_truediv_samples)

lemma sample_resize:
  "resize_image sample_env sample_image
     (PDict [(''enabled'', PBool True), (''width'', PInt 800), (''height'', PNone),
             (''maintainAspectRatio'', PBool True)]) = Inr small_image"
  by (simp add: resize_image_def new_dimensions_def dict_get_def dict_get_default_def
        sample_image_def val_truediv_sample int_mul_float_samples image_resize_def
        sample_env_def small_image_def
      cong: bind_err_weak_cong)

lemma sample_compress:
  "compress_image sample_env small_image
     (PDict [(''enabled'', PBool True), (''quality'', PInt 25), (''maxWidth'', PInt 1920),
             (''maxHeight'', PInt 1080)]) = Inr small_image"
  by (simp add: compress_image_def dict_get_default_def small_image_def sample_image_def
      cong: bind_err_weak_cong)


lemma sample_orient: "auto_orient sample_env img = img"
  by (simp add: auto_orient_def sample_env_def)

lemma manual_merged_items:
  "get_nested manual_merged ''optimization'' ''autoOrient'' = Inr (PBool True)"
  "get_nested manual_merged ''optimization'' ''removeMetadata'' = Inr (PBool True)"
  "get_nested manual_merged ''resize'' ''enabled'' = Inr (PBool True)"
  "get_nested manual_merged ''compression'' ''enabled'' = Inr (PBool True)"
  "get_nested manual_merged ''compression'' ''quality'' = Inr (PInt 25)"
  "dict_item manual_merged ''resize'' =
     Inr (PDict [(''enabled'', PBool True), (''width'', PInt 800), (''height'', PNone),
                 (''maintainAspectRatio'', PBool True)])"
  "dict_item manual_merged ''compression'' =
     Inr (PDict [(''enabled'', PBool True), (''quality'', PInt 25), (''maxWidth'', PInt 1920),
                 (''maxHeight'', PInt 1080)])"
  "dict_item manual_merged ''format'' =
     Inr (PDict [(''outputFormat'', PStr ''webp''), (''convertToWebp'', PBool True)])"
  "dict_get manual_merged ''mode'' = PStr ''manual''"
  by (simp_all add: manual_merged_def get_nested_def dict_item_def dict_get_def)

lemma sample_manual: "manual_mode sample_env sample_image manual_merged = Inr small_image"
  by (simp add: manual_mode_def manual_merged_items sample_orient sample_resize sample_compress
        Let_def cong: bind_err_weak_cong)

lemma sample_run_mode:
  "run_mode sample_env sample_image manual_merged = Inr (small_image, manual_merged)"
  by (simp add: run_mode_def manual_merged_items sample_manual)

lemma sample_format:
  "determine_output_format (Some ''JPEG'')
     (PDict [(''outputFormat'', PStr ''webp''), (''convertToWebp'', PBool True)])
     = Inr (Some ''WEBP'')"
  by (simp add: determine_output_format_def dict_get_default_def OUTPUT_FORMATS_def
        lower_def lower_char_def)

lemma sample_kwargs:
  "get_save_kwargs (Some ''WEBP'') manual_merged
     = Inr [(''quality'', PInt 25), (''optimize'', PBool True)]"
  by (simp add: get_save_kwargs_def manual_merged_items Let_def)

lemma sample_final:
  "final_image sample_env small_image manual_merged = Inr (image_new sample_env ''RGB'' 800 600 [])"
  by (simp add: final_image_def manual_merged_items remove_metadata_def small_image_def
        sample_image_def)

lemma sample_encode:
  "encode sample_env (image_new sample_env ''RGB'' 800 600 []) (Some ''WEBP'') False
     [(''quality'', PInt 25), (''optimize'', PBool True)] = Inr (zero_bytes 30000)"
  by (simp add: sample_env_def image_new_def sample_quality_def)

lemma sample_ratio: "compression_ratio 30000 480000 = Inr (375 / 4)"
proof -
  have a: "int_truediv 30000 480000 = Inr (1 / 16)" by (simp add: float_eval)
  have b: "float_sub 1 (1 / 16) = 15 / 16" by (simp add: float_eval)
  have c: "float_mul (15 / 16) 100 = 375 / 4" by (simp add: float_eval)
  have d: "py_round2 (375 / 4) = 375 / 4" by (simp add: py_round2_def float_eval)
  show ?thesis by (simp add: compression_ratio_def a b c d)
qed


lemma sample_image_fields:
  "format sample_image = Some ''JPEG''" "width sample_image = 1600" "height sample_image = 1200"
  by (simp_all add: sample_image_def)

lemma image_new_fields:
  "width (image_new c m w h px) = w" "height (image_new c m w h px) = h"
  "mode (image_new c m w h px) = m" "format (image_new c m w h px) = None"
  "info (image_new c m w h px) = []" "data (image_new c m w h px) = px"
  "is_animated (image_new c m w h px) = None"
  "palette (image_new c m w h px) = new_palette c m"
  by (simp_all add: image_new_def)

lemma sample_env_files:
  "write_file sample_env p = None" "path_join sample_env d f = d @ ''/'' @ f"
  by (simp_all add: sample_env_def)

lemma sample_body:
  "process_image_body sample_env ''out'' (BytesIO [255, 216, 255]) (Some manual_override)
     (Some ''result.webp'') = Inr (manual_result, zero_bytes 30000)"
  by (simp add: process_image_body_def manual_merged sample_open sample_size sample_run_mode
        manual_merged_items sample_format make_output_filename_def sample_kwargs sample_final
        sample_encode sample_ratio manual_result_def Let_def sample_image_fields
        image_new_fields sample_env_files
      cong: bind_err_weak_cong)

text \<open>
  Claim C3.  \<^verbatim>\<open>process_image\<close> returns a result dictionary whatever happens inside:
  an exception \<open>e\<close> of the body becomes the failure record with \<^verbatim>\<open>str(e)\<close> and the
  class name of \<open>e\<close>, and a body that completes gives the success record.  In
  particular a failing decode, a failing measurement of the original, and a failing
  mode stage (which holds the resizes and the encodes of the search loop) each end in
  that failure record; and when the file system refuses every write, or the encoder
  rejects every call, the result is a failure record.
\<close>

theorem process_image_never_raises:
  "(\<forall>e. process_image_body c d i s f = Inl e \<longrightarrow>
        process_image c d i s f = Failure (error_str e) (error_type_name e)) \<and>
   (\<forall>r w. process_image_body c d i s f = Inr (r, w) \<longrightarrow> process_image c d i s f = Success r) \<and>
   (\<forall>e. image_open c i = Inl e \<longrightarrow>
        process_image c d i s f = Failure (error_str e) (error_type_name e)) \<and>
   (\<forall>img0 e. image_open c i = Inr img0 \<and> get_image_size c img0 = Inl e \<longrightarrow>
        process_image c d i s f = Failure (error_str e) (error_type_name e)) \<and>
   (\<forall>img0 n e. image_open c i = Inr img0 \<and> get_image_size c img0 = Inr n \<and>
        run_mode c img0 (merged_settings s) = Inl e \<longrightarrow>
        process_image c d i s f = Failure (error_str e) (error_type_name e)) \<and>
   ((\<forall>p. write_file c p \<noteq> None) \<longrightarrow> (\<exists>m k. process_image c d i s f = Failure m k)) \<and>
   ((\<forall>img fmt sa kw. \<exists>e. encode c img fmt sa kw = Inl e) \<longrightarrow>
      (\<exists>m k. process_image c d i s f = Failure m k))"
proof (intro conjI allI impI)
  fix e assume "process_image_body c d i s f = Inl e"
  then show "process_image c d i s f = Failure (error_str e) (error_type_name e)"
    by (simp add: process_image_def)
next
  fix r w assume "process_image_body c d i s f = Inr (r, w)"
  then show "process_image c d i s f = Success r"
    by (simp add: process_image_def)
next
  fix e assume "image_open c i = Inl e"
  then show "process_image c d i s f = Failure (error_str e) (error_type_name e)"
    by (simp add: process_image_def process_image_body_def)
next
  fix img0 e assume "image_open c i = Inr img0 \<and> get_image_size c img0 = Inl e"
  then show "process_image c d i s f = Failure (error_str e) (error_type_name e)"
    by (simp add: process_image_def process_image_body_def)
next
  fix img0 n e
  assume "image_open c i = Inr img0 \<and> get_image_size c img0 = Inr n \<and>
          run_mode c img0 (merged_settings s) = Inl e"
  then show "process_image c d i s f = Failure (error_str e) (error_type_name e)"
    by (simp add: process_image_def process_image_body_def)
next
  assume ro: "\<forall>p. write_file c p \<noteq> None"
  show "\<exists>m k. process_image c d i s f = Failure m k"
  proof (cases "process_image_body c d i s f")
    case (Inl e)
    then show ?thesis by (simp add: process_image_def)
  next
    case (Inr p)
    obtain r w where "p = (r, w)" by (cases p)
    with Inr have "process_image_body c d i s f = Inr (r, w)" by simp
    then show ?thesis
    proof (rule process_image_body_success)
      fix filename
      assume "write_file c (path_join c d filename) = None"
      with ro show ?thesis by blast
    qed
  qed
next
  assume enc: "\<forall>img fmt sa kw. \<exists>e. encode c img fmt sa kw = Inl e"
  show "\<exists>m k. process_image c d i s f = Failure m k"
  proof (cases "process_image_body c d i s f")
    case (Inl e)
    then show ?thesis by (simp add: process_image_def)
  next
    case (Inr p)
    obtain r w where "p = (r, w)" by (cases p)
    with Inr have "process_image_body c d i s f = Inr (r, w)" by simp
    then show ?thesis
    proof (rule process_image_body_success)
      fix img2 fmt kw
      assume "encode c img2 fmt (fmt = Some ''GIF'' \<and> is_animated img2 = Some True) kw = Inr w"
      with enc show ?thesis by (metis sum.distinct(1))
    qed
  qed
qed

theorem process_image_never_raises_witness:
  "image_open sample_env (Path ''missing.png'')
     = Inl (ExternalError ''FileNotFoundError'' ''No such file or directory'') \<and>
   process_image sample_env ''out'' (Path ''missing.png'') None None
     = Failure ''No such file or directory'' ''FileNotFoundError'' \<and>
   (\<forall>p. write_file readonly_env p \<noteq> None) \<and>
   (\<exists>m k. process_image readonly_env ''out'' (BytesIO [255, 216, 255]) (Some manual_override)
             (Some ''result.webp'') = Failure m k)"
proof -
  have missing: "image_open sample_env (Path ''missing.png'')
     = Inl (ExternalError ''FileNotFoundError'' ''No such file or directory'')"
    by (simp add: sample_env_def)
  have ro: "\<forall>p. write_file readonly_env p \<noteq> None"
    by (simp add: readonly_env_def)
  from process_image_never_raises [of sample_env "''out''" "Path ''missing.png''" None None]
    process_image_never_raises [of readonly_env "''out''" "BytesIO [255, 216, 255]"
      "Some manual_override" "Some ''result.webp''"]
    missing ro
  show ?thesis by simp
qed

lemma int_truediv_value: "int_truediv a b = Inr q \<Longrightarrow> q = fl (of_int a / of_int b)"
  by (auto simp: int_truediv_def Let_def split: if_splits)


lemma caller_ratio: "compression_ratio 24000 480000 = Inr 95"
proof -
  have a: "int_truediv 24000 480000 = Inr (3602879701896397 / 72057594037927936)"
    by (simp add: float_eval)
  have b: "float_sub 1 (3602879701896397 / 72057594037927936)
             = 4278419646001971 / 4503599627370496"
    by (simp add: float_eval)
  have c: "float_mul (4278419646001971 / 4503599627370496) 100 = 95"
    by (simp add: float_eval)
  have d: "py_round2 95 = 95"
    by (simp add: py_round2_def float_eval)
  show ?thesis by (simp add: compression_ratio_def a b c d)
qed

lemma caller_result_items:
  "get_nested caller_result ''optimization'' ''removeMetadata'' = Inr (PBool True)"
  "get_nested caller_result ''optimization'' ''autoOrient'' = Inr (PBool True)"
  "get_nested caller_result ''optimization'' ''progressive'' = Inr (PBool True)"
  "get_nested caller_result ''format'' ''outputFormat'' = Inr (PStr ''webp'')"
  "get_nested caller_result ''compression'' ''quality'' = Inr (PInt 20)"
  "dict_item caller_result ''format'' =
     Inr (PDict [(''outputFormat'', PStr ''webp''), (''convertToWebp'', PBool True)])"
  by (simp_all add: caller_result_def get_nested_def dict_item_def)

lemma caller_body:
  "process_image_body sample_env ''out'' (BytesIO [255, 216, 255]) (Some caller_override)
     (Some ''result.webp'') = Inr (caller_run, zero_bytes 24000)"
proof -
  have "dict_get caller_merged ''mode'' = PStr ''auto''"
    by (simp add: caller_merged_def dict_get_def)
  then have rm: "run_mode sample_env sample_image caller_merged
                   = Inr (small_image, caller_result)"
    by (simp add: run_mode_def sample_auto)
  have kw: "get_save_kwargs (Some ''WEBP'') caller_result
     = Inr [(''quality'', PInt 20), (''optimize'', PBool True)]"
    by (simp add: get_save_kwargs_def caller_result_items Let_def)
  have fin: "final_image sample_env small_image caller_result
     = Inr (image_new sample_env ''RGB'' 800 600 [])"
    by (simp add: final_image_def caller_result_items remove_metadata_def small_image_def
        sample_image_def)
  have enc: "encode sample_env (image_new sample_env ''RGB'' 800 600 []) (Some ''WEBP'') False
     [(''quality'', PInt 20), (''optimize'', PBool True)] = Inr (zero_bytes 24000)"
    by (simp add: sample_env_def image_new_def sample_quality_def)
  show ?thesis
    by (simp add: process_image_body_def caller_merged sample_open sample_size rm
        caller_result_items sample_format make_output_filename_def kw fin enc caller_ratio
        caller_run_def Let_def sample_image_fields image_new_fields sample_env_files
      cong: bind_err_weak_cong)
qed

text \<open>
  Claim C4.  Whenever the mode of the merged settings is \<^verbatim>\<open>auto\<close>, a run of
  \<^verbatim>\<open>process_image\<close> that succeeds went through \<^verbatim>\<open>_process_auto_mode\<close>, and whatever
  the caller's settings said: the settings in use, which the result reports, hold
  \<^verbatim>\<open>format.outputFormat = 'webp'\<close> and the three optimization flags set to \<^verbatim>\<open>True\<close>;
  the output format the result reports is \<^verbatim>\<open>WEBP\<close>; and the bytes written are the
  \<^verbatim>\<open>WEBP\<close> encoding, with the save parameters of \<^verbatim>\<open>WEBP\<close>, of the image that the
  auto mode returned after the metadata step.
\<close>

theorem auto_mode_forces:
  "dict_get (merged_settings settings) ''mode'' = PStr ''auto'' \<Longrightarrow>
   process_image_body c d i settings f = Inr (r, written) \<Longrightarrow>
   get_nested (res_settings_used r) ''format'' ''outputFormat'' = Inr (PStr ''webp'') \<and>
   get_nested (res_settings_used r) ''optimization'' ''removeMetadata'' = Inr (PBool True) \<and>
   get_nested (res_settings_used r) ''optimization'' ''autoOrient'' = Inr (PBool True) \<and>
   get_nested (res_settings_used r) ''optimization'' ''progressive'' = Inr (PBool True) \<and>
   res_processed_format r = Some ''WEBP'' \<and>
   (\<exists>img0 img1 kw.
      image_open c i = Inr img0 \<and>
      run_mode c img0 (merged_settings settings) = Inr (img1, res_settings_used r) \<and>
      process_auto_mode c img0 (merged_settings settings) = Inr (img1, res_settings_used r) \<and>
      get_save_kwargs (Some ''WEBP'') (res_settings_used r) = Inr kw \<and>
      encode c (remove_metadata c img1) (Some ''WEBP'') False kw = Inr written)"
proof -
  assume auto: "dict_get (merged_settings settings) ''mode'' = PStr ''auto''"
    and body: "process_image_body c d i settings f = Inr (r, written)"
  from body show ?thesis
  proof (rule process_image_body_success)
    fix img0 n img1 ps fs fmt filename kw img2 ratio
    assume a: "image_open c i = Inr img0"
      "run_mode c img0 (merged_settings settings) = Inr (img1, ps)"
      "dict_item ps ''format'' = Inr fs"
      "determine_output_format (format img0) fs = Inr fmt"
      "get_save_kwargs fmt ps = Inr kw"
      "final_image c img1 ps = Inr img2"
      "encode c img2 fmt (fmt = Some ''GIF'' \<and> is_animated img2 = Some True) kw = Inr written"
      and r: "r = \<lparr>res_output_path = path_join c d filename,
           res_output_filename = filename,
           res_original_format = format img0,
           res_original_size = (width img0, height img0),
           res_original_file_size = n,
           res_processed_format = fmt,
           res_processed_size = (width img2, height img2),
           res_processed_file_size = length written,
           res_settings_used = ps,
           res_compression_ratio = ratio\<rparr>"
    from a(2) auto have pam: "process_auto_mode c img0 (merged_settings settings) = Inr (img1, ps)"
      by (simp add: run_mode_def)
    note forced = process_auto_mode_forced [OF pam, of "format img0"]
    from forced a(3,4) have fmt: "fmt = Some ''WEBP''" by auto
    from forced a(6) have img2: "img2 = remove_metadata c img1"
      by (auto simp: final_image_def)
    have enc: "encode c (remove_metadata c img1) (Some ''WEBP'') False kw = Inr written"
      using a(7) by (simp add: fmt img2)
    have kw: "get_save_kwargs (Some ''WEBP'') ps = Inr kw"
      using a(5) by (simp add: fmt)
    have rs: "res_settings_used r = ps" "res_processed_format r = Some ''WEBP''"
      by (simp_all add: r fmt)
    from forced a(1,2) pam kw enc show ?thesis
      unfolding rs by blast
  qed
qed

theorem auto_mode_forces_witness:
  "dict_get (merged_settings (Some caller_override)) ''mode'' = PStr ''auto'' \<and>
   get_nested (merged_settings (Some caller_override)) ''format'' ''outputFormat''
     = Inr (PStr ''png'') \<and>
   get_nested (merged_settings (Some caller_override)) ''optimization'' ''removeMetadata''
     = Inr (PBool False) \<and>
   get_nested (merged_settings (Some caller_override)) ''optimization'' ''autoOrient''
     = Inr (PBool False) \<and>
   get_nested (merged_settings (Some caller_override)) ''optimization'' ''progressive''
     = Inr (PBool False) \<and>
   process_image_body sample_env ''out'' (BytesIO [255, 216, 255]) (Some caller_override)
     (Some ''result.webp'') = Inr (caller_run, zero_bytes 24000) \<and>
   get_nested (res_settings_used caller_run) ''format'' ''outputFormat''
     = Inr (PStr ''webp'') \<and>
   get_nested (res_settings_used caller_run) ''optimization'' ''removeMetadata''
     = Inr (PBool True) \<and>
   get_nested (res_settings_used caller_run) ''optimization'' ''autoOrient''
     = Inr (PBool True) \<and>
   get_nested (res_settings_used caller_run) ''optimization'' ''progressive''
     = Inr (PBool True) \<and>
   res_processed_format caller_run = Some ''WEBP''"
proof -
  have before: "dict_get (merged_settings (Some caller_override)) ''mode'' = PStr ''auto''"
    "get_nested (merged_settings (Some caller_override)) ''format'' ''outputFormat''
       = Inr (PStr ''png'')"
    "get_nested (merged_settings (Some caller_override)) ''optimization'' ''removeMetadata''
       = Inr (PBool False)"
    "get_nested (merged_settings (Some caller_override)) ''optimization'' ''autoOrient''
       = Inr (PBool False)"
    "get_nested (merged_settings (Some caller_override)) ''optimization'' ''progressive''
       = Inr (PBool False)"
    by (simp_all add: caller_merged caller_merged_def get_nested_def dict_item_def dict_get_def)
  from auto_mode_forces [OF before(1) caller_body] caller_body before show ?thesis by simp
qed





text \<open>
  The copy branch does not carry the palette over.  The image of mode \<^verbatim>\<open>P\<close> shows
  the colours (10, 20, 30) and (40, 50, 60); the image the metadata step makes of it
  holds the same two indices and the palette of a new image, and shows black twice.
\<close>

theorem palette_not_carried_over:
  "colours p_image = [[10, 20, 30], [40, 50, 60]] \<and>
   data (remove_metadata sample_env p_image) = data p_image \<and>
   palette (remove_metadata sample_env p_image) = Some [] \<and>
   colours (remove_metadata sample_env p_image) = [[0, 0, 0], [0, 0, 0]]"
  by (simp add: colours_def p_image_def remove_metadata_def image_new_def sample_env_def)

subsection \<open>Floating point rounding\<close>

lemma ilog2_lower:
  assumes "0 < x"
  shows "2 powi (ilog2 x) \<le> x"
proof (cases "1 \<le> x")
  case True
  define n where "n = \<lfloor>x\<rfloor>"
  from True have n: "1 \<le> n" by (simp add: n_def)
  then have b: "1 \<le> bitlen n" by (simp add: bitlen_alt_def)
  from bitlen_bounds [of n] n have "2 ^ nat (bitlen n - 1) \<le> n" by simp
  then have "(2::rat) ^ nat (bitlen n - 1) \<le> of_int n"
    by (metis of_int_le_iff of_int_numeral of_int_power)
  also have "\<dots> \<le> x" by (simp add: n_def)
  finally have "(2::rat) ^ nat (bitlen n - 1) \<le> x" .
  moreover have "(2::rat) powi (bitlen n - 1) = 2 ^ nat (bitlen n - 1)"
    using b by (simp add: power_int_def)
  ultimately show ?thesis using True by (simp add: ilog2_def n_def)
next
  case False
  with assms have x: "0 < x" "x < 1" by simp_all
  define m where "m = \<lceil>1 / x\<rceil> - 1"
  from x have "1 < 1 / x" by simp
  then have "2 \<le> \<lceil>1 / x\<rceil>" by linarith
  then have m: "1 \<le> m" by (simp add: m_def)
  from bitlen_bounds [of m] m have "m < 2 ^ nat (bitlen m)" by simp
  then have "\<lceil>1 / x\<rceil> \<le> 2 ^ nat (bitlen m)" by (simp add: m_def)
  then have "1 / x \<le> of_int (2 ^ nat (bitlen m))"
    by (meson ceiling_le_iff)
  then have le: "1 / x \<le> 2 ^ nat (bitlen m)" by simp
  have pos: "(0::rat) < 2 ^ nat (bitlen m)" by simp
  from le x(1) pos have "1 / 2 ^ nat (bitlen m) \<le> x"
    by (simp add: field_simps)
  moreover have "(2::rat) powi (- bitlen m) = 1 / 2 ^ nat (bitlen m)"
    using bitlen_nonneg [of m] by (simp add: power_int_def inverse_eq_divide power_one_over)
  ultimately show ?thesis using False by (simp add: ilog2_def m_def)
qed

lemma round_half_even_error: "\<bar>of_int (round_half_even y) - y\<bar> \<le> 1 / 2"
proof -
  have "of_int \<lfloor>y\<rfloor> \<le> y" "y < of_int \<lfloor>y\<rfloor> + 1" by linarith+
  then show ?thesis
    by (auto simp: round_half_even_def Let_def abs_le_iff)
qed

lemma round_half_even_tie:
  "\<bar>of_int (round_half_even y) - y\<bar> = 1 / 2 \<Longrightarrow> even (round_half_even y)"
proof -
  assume tie: "\<bar>of_int (round_half_even y) - y\<bar> = 1 / 2"
  define f where "f = \<lfloor>y\<rfloor>"
  have b: "of_int f \<le> y" "y < of_int f + 1" unfolding f_def by linarith+
  have r: "round_half_even y =
      (if y - of_int f < 1 / 2 then f else if 1 / 2 < y - of_int f then f + 1
       else if even f then f else f + 1)"
    by (simp add: round_half_even_def Let_def f_def)
  show "even (round_half_even y)"
  proof (cases "y - of_int f < 1 / 2")
    case True
    with r have "round_half_even y = f" by simp
    with tie b True show ?thesis by (simp add: abs_if split: if_splits)
  next
    case False
    show ?thesis
    proof (cases "1 / 2 < y - of_int f")
      case True
      with False r have "round_half_even y = f + 1" by simp
      with tie b True show ?thesis by (simp add: abs_if split: if_splits)
    next
      case False
      with \<open>\<not> y - of_int f < 1 / 2\<close> r show ?thesis by simp
    qed
  qed
qed

lemma fl_error:
  "\<bar>fl x - x\<bar> \<le> max (\<bar>x\<bar> / 2 ^ 53) (1 / 2 ^ 1075)"
proof (cases "x = 0")
  case True
  then show ?thesis by (simp add: fl_def)
next
  case False
  define a where "a = \<bar>x\<bar>"
  define e where "e = max (ilog2 a) (- 1022)"
  define u :: rat where "u = 2 powi (e - 52)"
  define k where "k = round_half_even (a / u)"
  from False have a: "0 < a" by (simp add: a_def)
  have u: "0 < u" by (simp add: u_def)
  have fl: "fl x = sgn x * (of_int k * u)"
    using False by (simp add: fl_def Let_def a_def e_def u_def k_def)
  have x: "x = sgn x * a" by (simp add: a_def abs_sgn mult.commute)
  have "fl x - x = sgn x * (of_int k * u - a)"
    by (subst (2) x) (simp add: fl algebra_simps)
  then have "\<bar>fl x - x\<bar> = \<bar>of_int k * u - a\<bar>"
    using False by (simp add: abs_mult abs_sgn_eq)
  also have "of_int k * u - a = u * (of_int k - a / u)"
    using u by (simp add: field_simps)
  also have "\<bar>u * (of_int k - a / u)\<bar> = u * \<bar>of_int k - a / u\<bar>"
    using u by (simp add: abs_mult)
  also have "\<dots> \<le> u * (1 / 2)"
    using round_half_even_error [of "a / u"] u unfolding k_def
    by (intro mult_left_mono) simp_all
  finally have err: "\<bar>fl x - x\<bar> \<le> u / 2" by simp
  show ?thesis
  proof (cases "- 1022 \<le> ilog2 a")
    case True
    then have "e = ilog2 a" by (simp add: e_def)
    then have "u = 2 powi (ilog2 a) / 2 ^ 52"
      by (simp add: u_def power_int_diff)
    also have "\<dots> \<le> a / 2 ^ 52"
      using ilog2_lower [OF a] by (simp add: divide_right_mono)
    finally have "u / 2 \<le> a / 2 ^ 52 / 2" by simp
    also have "a / 2 ^ 52 / 2 = a / 2 ^ 53" by simp
    finally have "u / 2 \<le> \<bar>x\<bar> / 2 ^ 53" by (simp only: a_def)
    with err have "\<bar>fl x - x\<bar> \<le> \<bar>x\<bar> / 2 ^ 53" by (rule order_trans)
    then show ?thesis by (rule max.coboundedI1)
  next
    case False
    then have "e = - 1022" by (simp add: e_def)
    then have "u = 2 powi (- 1074)" by (simp add: u_def)
    also have "\<dots> = 1 / 2 ^ 1074"
      by (simp only: power_int_minus power_int_numeral inverse_eq_divide)
    finally have "u / 2 = 1 / 2 ^ 1074 / 2" by simp
    also have "\<dots> = 1 / ((2::rat) ^ 1074 * 2)" by (simp only: divide_divide_eq_left)
    also have "(2::rat) ^ 1074 * 2 = 2 ^ 1075" by simp
    finally have "u / 2 = 1 / 2 ^ 1075" .
    with err have "\<bar>fl x - x\<bar> \<le> 1 / 2 ^ 1075" by (simp only:)
    then show ?thesis by (rule max.coboundedI2)
  qed
qed

lemma ulp_half_facts:
  "0 < ulp_half" "ulp_half < 1"
  "(1 + ulp_half) * (1 + ulp_half) * (1 + ulp_half) \<le> 1 + 1 / 2 ^ 51"
  "1 - 1 / 2 ^ 51 \<le> (1 - ulp_half) * (1 - ulp_half) * (1 - ulp_half)"
  "1 / 2 \<le> 1 - ulp_half" "1 + ulp_half \<le> 2"
  by (simp_all add: ulp_half_def)

lemma fl_pos_bounds:
  assumes "1 / 2 ^ 1022 \<le> x"
  shows "x * (1 - ulp_half) \<le> fl x" "fl x \<le> x * (1 + ulp_half)"
proof -
  from assms have pos: "0 < x" by (rule less_le_trans [rotated]) simp
  have "1 / 2 ^ 1075 = 1 / 2 ^ 1022 / (2::rat) ^ 53" by simp
  also have "\<dots> \<le> x / 2 ^ 53" using assms by (rule divide_right_mono) simp
  finally have "max (\<bar>x\<bar> / 2 ^ 53) (1 / 2 ^ 1075) = x / 2 ^ 53"
    using pos by (simp only: abs_of_pos max_absorb1)
  with fl_error [of x] have "\<bar>fl x - x\<bar> \<le> x / 2 ^ 53" by (simp only:)
  then have "\<bar>fl x - x\<bar> \<le> x * ulp_half" by (simp only: ulp_half_def times_divide_eq_right mult_1_right)
  then show "x * (1 - ulp_half) \<le> fl x" "fl x \<le> x * (1 + ulp_half)"
    by (simp_all add: abs_le_iff algebra_simps)
qed

lemma scaled_dimension:
  fixes tw cw ch :: int
  assumes pos: "0 < tw" "0 < cw" "0 < ch"
    and small: "ch * tw < 2 ^ 51" "cw < 2 ^ 51"
  shows "\<exists>nh. bind_err (int_truediv tw cw) (\<lambda>ratio. int_mul_float ch ratio) = Inr nh \<and>
              ch * tw - cw \<le> nh * cw \<and> nh * cw \<le> ch * tw"
proof -
  define x :: rat where "x = of_int tw / of_int cw"
  define C :: rat where "C = of_int ch"
  define W :: rat where "W = of_int cw"
  define T :: rat where "T = of_int (ch * tw)"
  define r where "r = fl x"
  define f where "f = fl C"
  define y where "y = f * r"
  define p where "p = fl y"
  note u = ulp_half_facts
  have W: "0 < W" "W < 2 ^ 51"
  proof -
    show "0 < W" using pos by (simp add: W_def)
    from small(2) have "(of_int cw :: rat) < of_int (2 ^ 51)" by (simp only: of_int_less_iff)
    then show "W < 2 ^ 51" by (simp add: W_def)
  qed
  have C1: "1 \<le> C" using pos by (simp add: C_def)
  have tw1: "(1::rat) \<le> of_int tw" using pos by simp
  have T: "T < 2 ^ 51" "0 < T" "T = C * x * W"
  proof -
    from small(1) have "(of_int (ch * tw) :: rat) < of_int (2 ^ 51)"
      by (simp only: of_int_less_iff)
    then show "T < 2 ^ 51" by (simp add: T_def)
    from pos have "0 < ch * tw" by simp
    then show "0 < T" unfolding T_def by (simp only: of_int_0_less_iff)
    show "T = C * x * W" using W(1) by (simp add: T_def x_def C_def W_def)
  qed
  have chtw: "C \<le> T" "of_int tw \<le> T"
  proof -
    from pos have "ch * 1 \<le> ch * tw" by (intro mult_left_mono) simp_all
    then have "ch \<le> ch * tw" by simp
    then show "C \<le> T" unfolding C_def T_def by (simp only: of_int_le_iff)
    from pos have "1 * tw \<le> ch * tw" by (intro mult_right_mono) simp_all
    then have "tw \<le> ch * tw" by simp
    then show "of_int tw \<le> T" unfolding T_def by (simp only: of_int_le_iff)
  qed
  have x_lo: "1 / 2 ^ 51 \<le> x"
  proof -
    have "1 / 2 ^ 51 \<le> 1 / W" using W by (simp add: frac_le)
    also have "\<dots> \<le> x" using tw1 W by (simp add: x_def W_def divide_right_mono)
    finally show ?thesis .
  qed
  have x_hi: "x \<le> of_int tw" using W tw1 pos
    by (simp add: x_def W_def field_simps mult_le_cancel_left1)
  have x_pos: "0 < x" using x_lo by (rule less_le_trans [rotated]) simp
  have xr: "1 / 2 ^ 1022 \<le> x" using x_lo by (rule order_trans [rotated]) simp
  note rb = fl_pos_bounds [OF xr, folded r_def]
  have om: "0 < 1 - ulp_half" "0 \<le> 1 - ulp_half" "0 \<le> 1 + ulp_half" using u(1,2) by simp_all
  have r_pos: "0 < r"
  proof -
    have "0 < x * (1 - ulp_half)" using x_pos om(1) by (rule mult_pos_pos)
    then show ?thesis using rb(1) by (rule less_le_trans)
  qed
  have Cr: "1 / 2 ^ 1022 \<le> C" using C1 by (rule order_trans [rotated]) simp
  note fb = fl_pos_bounds [OF Cr, folded f_def]
  have C_pos: "0 < C" using C1 by simp
  have f_pos: "0 < f"
  proof -
    have "0 < C * (1 - ulp_half)" using C_pos om(1) by (rule mult_pos_pos)
    then show ?thesis using fb(1) by (rule less_le_trans)
  qed
  have y_hi: "y \<le> C * x * ((1 + ulp_half) * (1 + ulp_half))"
  proof -
    have "f * r \<le> (C * (1 + ulp_half)) * (x * (1 + ulp_half))"
      using fb(2) rb(2) f_pos r_pos C1 u(1) by (intro mult_mono) simp_all
    then show ?thesis by (simp add: y_def algebra_simps)
  qed
  have y_lo: "C * x * ((1 - ulp_half) * (1 - ulp_half)) \<le> y"
  proof -
    have "(C * (1 - ulp_half)) * (x * (1 - ulp_half)) \<le> f * r"
      using fb(1) rb(1) f_pos x_pos u(2) by (intro mult_mono) simp_all
    then show ?thesis by (simp add: y_def algebra_simps)
  qed
  have y_pos: "0 < y" using f_pos r_pos by (simp add: y_def)
  have Cx: "1 / 2 ^ 51 \<le> C * x"
  proof -
    have "1 * x \<le> C * x" using C1 x_pos by (intro mult_right_mono) simp_all
    then have "x \<le> C * x" by simp
    with x_lo show ?thesis by (rule order_trans)
  qed
  have quarter: "1 / 4 \<le> (1 - ulp_half) * (1 - ulp_half)"
  proof -
    have "(1 / 2) * (1 / 2) \<le> (1 - ulp_half) * (1 - ulp_half)"
      using u(5) by (intro mult_mono) simp_all
    then show ?thesis by simp
  qed
  have yr: "1 / 2 ^ 1022 \<le> y"
  proof -
    have "(1 / 2 ^ 51) * (1 / 4) \<le> (C * x) * ((1 - ulp_half) * (1 - ulp_half))"
      using Cx quarter by (intro mult_mono) simp_all
    with y_lo have "(1 / 2 ^ 51) * (1 / 4) \<le> y" by simp
    then show ?thesis by (rule order_trans [rotated]) simp
  qed
  note pb = fl_pos_bounds [OF yr, folded p_def]
  have p_hi: "p \<le> C * x * (1 + 1 / 2 ^ 51)"
  proof -
    have "y * (1 + ulp_half) \<le> (C * x * ((1 + ulp_half) * (1 + ulp_half))) * (1 + ulp_half)"
      using y_hi om(3) by (rule mult_right_mono)
    with pb(2) have "p \<le> (C * x * ((1 + ulp_half) * (1 + ulp_half))) * (1 + ulp_half)"
      by (rule order_trans)
    also have "\<dots> = C * x * ((1 + ulp_half) * (1 + ulp_half) * (1 + ulp_half))"
      by (simp add: algebra_simps)
    also have "\<dots> \<le> C * x * (1 + 1 / 2 ^ 51)"
      using u(3) C1 x_pos by (intro mult_left_mono) simp_all
    finally show ?thesis .
  qed
  have p_lo: "C * x * (1 - 1 / 2 ^ 51) \<le> p"
  proof -
    have "C * x * (1 - 1 / 2 ^ 51) \<le> C * x * ((1 - ulp_half) * (1 - ulp_half) * (1 - ulp_half))"
      using u(4) C1 x_pos by (intro mult_left_mono) simp_all
    also have "\<dots> = (C * x * ((1 - ulp_half) * (1 - ulp_half))) * (1 - ulp_half)"
      by (simp add: algebra_simps)
    also have "\<dots> \<le> y * (1 - ulp_half)"
      using y_lo u(2) by (intro mult_right_mono) simp_all
    also have "\<dots> \<le> p" by (rule pb(1))
    finally show ?thesis .
  qed
  have p_pos: "0 \<le> p"
  proof -
    have "0 \<le> C * x * (1 - 1 / 2 ^ 51)" using C1 x_pos by simp
    with p_lo show ?thesis by simp
  qed
  have pW_hi: "p * W < T + 1"
  proof -
    have "p * W \<le> (C * x * (1 + 1 / 2 ^ 51)) * W"
      using p_hi W(1) by (intro mult_right_mono) simp_all
    also have "\<dots> = T + T / 2 ^ 51" by (simp add: T(3) algebra_simps)
    also have "\<dots> < T + 1" using T(1) by simp
    finally show ?thesis .
  qed
  have pW_lo: "T - 1 < p * W"
  proof -
    have "T - 1 < T - T / 2 ^ 51" using T(1) by simp
    also have "\<dots> = (C * x * (1 - 1 / 2 ^ 51)) * W" by (simp add: T(3) algebra_simps)
    also have "\<dots> \<le> p * W" using p_lo W(1) by (intro mult_right_mono) simp_all
    finally show ?thesis .
  qed
  have inf: "(2::rat) ^ 53 < float_inf" by (simp add: float_inf_def)
  have r_small: "r < 2 ^ 53"
  proof -
    have "x * (1 + ulp_half) \<le> x * 2" using u(6) x_pos by (intro mult_left_mono) simp_all
    with rb(2) have "r \<le> x * 2" by (rule order_trans)
    also have "\<dots> \<le> T * 2" using x_hi chtw(2) by simp
    also have "\<dots> < 2 ^ 53" using T(1) by simp
    finally show ?thesis .
  qed
  have f_small: "f < 2 ^ 53"
  proof -
    have "C * (1 + ulp_half) \<le> C * 2" using u(6) C_pos by (intro mult_left_mono) simp_all
    with fb(2) have "f \<le> C * 2" by (rule order_trans)
    also have "\<dots> \<le> T * 2" using chtw(1) by simp
    also have "\<dots> < 2 ^ 53" using T(1) by simp
    finally show ?thesis .
  qed
  have p_small: "p < 2 ^ 53"
  proof -
    have "p * 1 \<le> p * W"
      using p_pos pos by (intro mult_left_mono) (simp_all add: W_def)
    also have "\<dots> < T + 1" by (rule pW_hi)
    also have "\<dots> < 2 ^ 53" using T(1) by simp
    finally show ?thesis by simp
  qed
  have div: "int_truediv tw cw = Inr r"
    using pos r_pos r_small inf by (simp add: int_truediv_def Let_def r_def x_def)
  have conv: "float_of_int ch = Inr f"
    using f_pos f_small inf by (simp add: float_of_int_def Let_def f_def C_def)
  have mul: "float_mul f r = p"
    using p_pos p_small inf by (simp add: float_mul_def to_double_def Let_def p_def y_def)
  have trunc: "int_of_float p = Inr \<lfloor>p\<rfloor>"
    using p_pos p_small inf by (simp add: int_of_float_def)
  have run: "bind_err (int_truediv tw cw) (\<lambda>ratio. int_mul_float ch ratio) = Inr \<lfloor>p\<rfloor>"
    by (simp add: div int_mul_float_def conv mul trunc)
  have fl1: "of_int \<lfloor>p\<rfloor> \<le> p" "p < of_int \<lfloor>p\<rfloor> + 1" by linarith+
  have "of_int \<lfloor>p\<rfloor> * W \<le> p * W" using fl1(1) W(1) by (intro mult_right_mono) simp_all
  with pW_hi have "of_int (\<lfloor>p\<rfloor> * cw) < (of_int (ch * tw + 1) :: rat)"
    by (simp add: W_def T_def)
  then have "\<lfloor>p\<rfloor> * cw < ch * tw + 1" by (simp only: of_int_less_iff)
  then have hi: "\<lfloor>p\<rfloor> * cw \<le> ch * tw" by simp
  have "p * W < (of_int \<lfloor>p\<rfloor> + 1) * W" using fl1(2) W(1) by (intro mult_strict_right_mono)
  with pW_lo have "(of_int (ch * tw - 1) :: rat) < of_int (\<lfloor>p\<rfloor> * cw + cw)"
    by (simp add: W_def T_def algebra_simps)
  then have "ch * tw - 1 < \<lfloor>p\<rfloor> * cw + cw" by (simp only: of_int_less_iff)
  then have lo: "ch * tw - cw \<le> \<lfloor>p\<rfloor> * cw" by simp
  from run lo hi show ?thesis by blast
qed

subsection \<open>Resize primitives\<close>

lemma scenario_merged: "merged_settings (Some scenario_override) = scenario_merged"
  by (simp add: merged_settings_def scenario_override_def scenario_merged_def DEFAULT_SETTINGS_def)

lemma scenario_items:
  "get_nested scenario_merged ''optimization'' ''autoOrient'' = Inr (PBool True)"
  "get_nested scenario_merged ''optimization'' ''removeMetadata'' = Inr (PBool True)"
  "get_nested scenario_merged ''resize'' ''enabled'' = Inr (PBool True)"
  "get_nested scenario_merged ''compression'' ''enabled'' = Inr (PBool True)"
  "get_nested scenario_merged ''compression'' ''quality'' = Inr (PInt 85)"
  "dict_item scenario_merged ''resize'' =
     Inr (PDict [(''enabled'', PBool True), (''width'', PInt 800), (''height'', PNone),
                 (''maintainAspectRatio'', PBool True)])"
  "dict_item scenario_merged ''compression'' =
     Inr (PDict [(''enabled'', PBool True), (''quality'', PInt 85), (''maxWidth'', PInt 1920),
                 (''maxHeight'', PInt 1080)])"
  "dict_item scenario_merged ''format'' =
     Inr (PDict [(''outputFormat'', PStr ''webp''), (''convertToWebp'', PBool True)])"
  "dict_get scenario_merged ''mode'' = PStr ''manual''"
  by (simp_all add: scenario_merged_def get_nested_def dict_item_def dict_get_def)

lemma new_dimensions_scenario:
  "new_dimensions (PInt 800) PNone (PBool True) 1600 1200 = Inr (PInt 800, PInt 600)"
  by (simp add: new_dimensions_def val_truediv_def int_truediv_samples int_mul_float_samples)

lemma compress_small:
  "width img = 800 \<Longrightarrow> height img \<le> 1080 \<Longrightarrow>
   compress_image c img
     (PDict [(''enabled'', PBool True), (''quality'', PInt 85), (''maxWidth'', PInt 1920),
             (''maxHeight'', PInt 1080)]) = Inr img"
  by (simp add: compress_image_def dict_get_default_def)

lemma scenario_manual:
  assumes "width (auto_orient c img0) = 1600" "height (auto_orient c img0) = 1200"
    and "manual_mode c img0 scenario_merged = Inr img'"
  shows "width img' = 800 \<and> height img' = 600"
proof -
  let ?img1 = "auto_orient c img0"
  let ?rs = "PDict [(''enabled'', PBool True), (''width'', PInt 800), (''height'', PNone),
                 (''maintainAspectRatio'', PBool True)]"
  have rs: "resize_image c ?img1 ?rs = image_resize c ?img1 (PInt 800) (PInt 600)"
    by (simp add: resize_image_def dict_get_def dict_get_default_def assms(1,2)
          new_dimensions_scenario)
  from assms(3) obtain img2 where
    r: "image_resize c ?img1 (PInt 800) (PInt 600) = Inr img2"
    and c: "compress_image c img2
     (PDict [(''enabled'', PBool True), (''quality'', PInt 85), (''maxWidth'', PInt 1920),
             (''maxHeight'', PInt 1080)]) = Inr img'"
    by (auto simp: manual_mode_def scenario_items rs bind_err_Inr Let_def)
  from image_resize_size [OF r] have s: "width img2 = 800" "height img2 = 600" by simp_all
  with c compress_small [of img2 c] show ?thesis by simp
qed

lemma e800: "int_truediv 800 1200 = Inr (6004799503160661 / 9007199254740992)"
  by (simp add: float_eval)

lemma e1066: "int_mul_float 1600 (6004799503160661 / 9007199254740992) = Inr 1066"
proof -
  have a: "float_of_int 1600 = Inr 1600" by (simp add: float_eval)
  have b: "float_mul 1600 (6004799503160661 / 9007199254740992) = 2345624805922133 / 2199023255552"
    by (simp add: float_eval)
  have c: "int_of_float (2345624805922133 / 2199023255552) = Inr 1066"
    by (simp add: float_eval)
  show ?thesis by (simp add: int_mul_float_def a b c)
qed

lemma rotating_env_fields:
  "image_open rotating_env (BytesIO [255, 216, 255]) = Inr sample_image"
  "write_file rotating_env p = None" "path_join rotating_env d f = d @ ''/'' @ f"
  "get_image_size rotating_env sample_image = Inr 480000"
  "auto_orient rotating_env sample_image = sample_image\<lparr>width := 1200, height := 1600\<rparr>"
  by (simp_all add: rotating_env_def sample_env_def get_image_size_def sample_image_def
        sample_quality_def auto_orient_def)

lemma rotated_resize:
  "resize_image rotating_env (sample_image\<lparr>width := 1200, height := 1600\<rparr>)
     (PDict [(''enabled'', PBool True), (''width'', PInt 800), (''height'', PNone),
             (''maintainAspectRatio'', PBool True)]) = Inr rotated_small"
  by (simp add: resize_image_def new_dimensions_def dict_get_def dict_get_default_def
        sample_image_def val_truediv_def e800 e1066 image_resize_def
        rotating_env_def sample_env_def rotated_small_def
      cong: bind_err_weak_cong)

lemma rotated_manual:
  "manual_mode rotating_env sample_image scenario_merged = Inr rotated_small"
proof -
  have c: "compress_image rotating_env rotated_small
     (PDict [(''enabled'', PBool True), (''quality'', PInt 85), (''maxWidth'', PInt 1920),
             (''maxHeight'', PInt 1080)]) = Inr rotated_small"
    by (rule compress_small) (simp_all add: rotated_small_def)
  show ?thesis
    by (simp add: manual_mode_def scenario_items rotating_env_fields rotated_resize c Let_def
        cong: bind_err_weak_cong)
qed

lemma rotated_ratio: "compression_ratio 181220 480000 = Inr (249 / 4)"
proof -
  have a: "int_truediv 181220 480000 = Inr (425074127329209 / 1125899906842624)"
    by (simp add: float_eval)
  have b: "float_sub 1 (425074127329209 / 1125899906842624)
             = 700825779513415 / 1125899906842624"
    by (simp add: float_eval)
  have c: "float_mul (700825779513415 / 1125899906842624) 100
             = 1095040280489711 / 17592186044416"
    by (simp add: float_eval)
  have d: "py_round2 (1095040280489711 / 17592186044416) = 249 / 4"
    by (simp add: py_round2_def float_eval)
  show ?thesis by (simp add: compression_ratio_def a b c d)
qed

lemma rotated_body:
  "process_image_body rotating_env ''out'' (BytesIO [255, 216, 255]) (Some scenario_override)
     (Some ''result.webp'') = Inr (rotated_result, zero_bytes 181220)"
proof -
  have rm: "run_mode rotating_env sample_image scenario_merged
              = Inr (rotated_small, scenario_merged)"
    by (simp add: run_mode_def scenario_items rotated_manual)
  have fmt: "determine_output_format (Some ''JPEG'')
     (PDict [(''outputFormat'', PStr ''webp''), (''convertToWebp'', PBool True)])
     = Inr (Some ''WEBP'')"
    by (rule sample_format)
  have kw: "get_save_kwargs (Some ''WEBP'') scenario_merged
     = Inr [(''quality'', PInt 85), (''optimize'', PBool True)]"
    by (simp add: get_save_kwargs_def scenario_items Let_def)
  have fin: "final_image rotating_env rotated_small scenario_merged
     = Inr (image_new rotating_env ''RGB'' 800 1066 [])"
    by (simp add: final_image_def scenario_items remove_metadata_def rotated_small_def
        sample_image_def)
  have enc: "encode rotating_env (image_new rotating_env ''RGB'' 800 1066 []) (Some ''WEBP'') False
     [(''quality'', PInt 85), (''optimize'', PBool True)] = Inr (zero_bytes 181220)"
    by (simp add: rotating_env_def sample_env_def image_new_def sample_quality_def)
  show ?thesis
    by (simp add: process_image_body_def scenario_merged rotating_env_fields rm
        scenario_items fmt make_output_filename_def kw fin enc rotated_ratio
        rotated_result_def Let_def sample_image_fields image_new_fields
      cong: bind_err_weak_cong)
qed

lemma scenario_ratio: "compression_ratio 102000 480000 = Inr (315 / 4)"
proof -
  have a: "int_truediv 102000 480000 = Inr (7656119366529843 / 36028797018963968)"
    by (simp add: float_eval)
  have b: "float_sub 1 (7656119366529843 / 36028797018963968)
             = 7093169413108531 / 9007199254740992"
    by (simp add: float_eval)
  have c: "float_mul (7093169413108531 / 9007199254740992) 100 = 315 / 4"
    by (simp add: float_eval)
  have d: "py_round2 (315 / 4) = 315 / 4"
    by (simp add: py_round2_def float_eval)
  show ?thesis by (simp add: compression_ratio_def a b c d)
qed

lemma scenario_body:
  "process_image_body sample_env ''out'' (BytesIO [255, 216, 255]) (Some scenario_override)
     (Some ''result.webp'') = Inr (scenario_result, zero_bytes 102000)"
proof -
  have man: "manual_mode sample_env sample_image scenario_merged = Inr small_image"
  proof -
    have c: "compress_image sample_env small_image
       (PDict [(''enabled'', PBool True), (''quality'', PInt 85), (''maxWidth'', PInt 1920),
               (''maxHeight'', PInt 1080)]) = Inr small_image"
      by (rule compress_small) (simp_all add: small_image_def)
    show ?thesis
      by (simp add: manual_mode_def scenario_items sample_orient sample_resize c Let_def
          cong: bind_err_weak_cong)
  qed
  have rm: "run_mode sample_env sample_image scenario_merged = Inr (small_image, scenario_merged)"
    by (simp add: run_mode_def scenario_items man)
  have kw: "get_save_kwargs (Some ''WEBP'') scenario_merged
     = Inr [(''quality'', PInt 85), (''optimize'', PBool True)]"
    by (simp add: get_save_kwargs_def scenario_items Let_def)
  have fin: "final_image sample_env small_image scenario_merged
     = Inr (image_new sample_env ''RGB'' 800 600 [])"
    by (simp add: final_image_def scenario_items remove_metadata_def small_image_def
        sample_image_def)
  have enc: "encode sample_env (image_new sample_env ''RGB'' 800 600 []) (Some ''WEBP'') False
     [(''quality'', PInt 85), (''optimize'', PBool True)] = Inr (zero_bytes 102000)"
    by (simp add: sample_env_def image_new_def sample_quality_def)
  show ?thesis
    by (simp add: process_image_body_def scenario_merged sample_open sample_size rm
        scenario_items sample_format make_output_filename_def kw fin enc scenario_ratio
        scenario_result_def Let_def sample_image_fields image_new_fields sample_env_files
      cong: bind_err_weak_cong)
qed

lemma remove_metadata_size:
  "width (remove_metadata c img) = width img \<and> height (remove_metadata c img) = height img"
  by (simp add: remove_metadata_def white_background_def image_new_def Let_def)

lemma scenario_size:
  assumes body: "process_image_body c d i (Some scenario_override) f = Inr (r, w)"
    and op: "image_open c i = Inr img0"
    and size: "width (auto_orient c img0) = 1600" "height (auto_orient c img0) = 1200"
  shows "res_processed_size r = (800, 600)"
  using body
proof (rule process_image_body_success)
  fix img0' n img1 ps fs fmt filename kw img2 ratio
  assume a: "image_open c i = Inr img0'"
    "run_mode c img0' (merged_settings (Some scenario_override)) = Inr (img1, ps)"
    "final_image c img1 ps = Inr img2"
    and r: "r = \<lparr>res_output_path = path_join c d filename,
           res_output_filename = filename,
           res_original_format = format img0',
           res_original_size = (width img0', height img0'),
           res_original_file_size = n,
           res_processed_format = fmt,
           res_processed_size = (width img2, height img2),
           res_processed_file_size = length w,
           res_settings_used = ps,
           res_compression_ratio = ratio\<rparr>"
  from a(1) op have [simp]: "img0' = img0" by simp
  from a(2) have m: "manual_mode c img0 scenario_merged = Inr img1" and ps: "ps = scenario_merged"
    by (auto simp: run_mode_def scenario_merged scenario_items bind_err_Inr)
  from scenario_manual [OF size m] have s1: "width img1 = 800" "height img1 = 600" by simp_all
  from a(3) have "img2 = remove_metadata c img1"
    by (simp add: final_image_def ps scenario_items)
  with s1 remove_metadata_size [of c img1] r show ?thesis by simp
qed

text \<open>
  Claim C9, as amended.  Let \<^verbatim>\<open>maintainAspectRatio\<close> be truthy and exactly one target
  dimension \<open>t > 0\<close> be given, the other being absent or falsy, on an image of \<open>cw\<close> by
  \<open>ch\<close> pixels with \<open>cw\<close>, \<open>ch\<close>, \<open>cw * t\<close> and \<open>ch * t\<close> below \<open>2 ^ 51\<close>.  Then the
  given dimension is taken as it is and the other one, computed in floating point as the
  source does, lies within one pixel below the exact proportional value: for a target
  width, \<open>ch * t / cw - 1 \<le> new_height \<le> ch * t / cw\<close>, and likewise for a target
  height.  And manual mode with the scenario's settings, on an input whose image is 1600
  by 1200 after auto-orientation, produces exactly 800 by 600.
\<close>

theorem resize_preserves_aspect:
  "truthy maintain_aspect \<Longrightarrow> \<not> truthy other \<Longrightarrow>
   0 < t \<Longrightarrow> 0 < cw \<Longrightarrow> 0 < ch \<Longrightarrow>
   cw < 2 ^ 51 \<Longrightarrow> ch < 2 ^ 51 \<Longrightarrow> ch * t < 2 ^ 51 \<Longrightarrow> cw * t < 2 ^ 51 \<Longrightarrow>
   (\<exists>nh. new_dimensions (PInt t) other maintain_aspect cw ch = Inr (PInt t, PInt nh) \<and>
          ch * t - cw \<le> nh * cw \<and> nh * cw \<le> ch * t) \<and>
   (\<exists>nw. new_dimensions other (PInt t) maintain_aspect cw ch = Inr (PInt nw, PInt t) \<and>
          cw * t - ch \<le> nw * ch \<and> nw * ch \<le> cw * t) \<and>
   (\<forall>c d i f r w img0.
      process_image_body c d i (Some scenario_override) f = Inr (r, w) \<and>
      image_open c i = Inr img0 \<and>
      width (auto_orient c img0) = 1600 \<and> height (auto_orient c img0) = 1200 \<longrightarrow>
      res_processed_size r = (800, 600))"
proof (intro conjI allI impI)
  assume a: "truthy maintain_aspect" "\<not> truthy other" "0 < t" "0 < cw" "0 < ch"
    "cw < 2 ^ 51" "ch < 2 ^ 51" "ch * t < 2 ^ 51" "cw * t < 2 ^ 51"
  from scaled_dimension [OF a(3,4,5) a(8) a(6)] obtain nh where
    nh: "bind_err (int_truediv t cw) (\<lambda>ratio. int_mul_float ch ratio) = Inr nh"
        "ch * t - cw \<le> nh * cw" "nh * cw \<le> ch * t" by blast
  from nh(1) obtain ratio where "int_truediv t cw = Inr ratio" "int_mul_float ch ratio = Inr nh"
    by (auto simp: bind_err_Inr)
  then have "new_dimensions (PInt t) other maintain_aspect cw ch = Inr (PInt t, PInt nh)"
    using a(1,2,3) by (simp add: new_dimensions_def val_truediv_def)
  with nh(2,3)
  show "\<exists>nh. new_dimensions (PInt t) other maintain_aspect cw ch = Inr (PInt t, PInt nh) \<and>
          ch * t - cw \<le> nh * cw \<and> nh * cw \<le> ch * t" by blast
  from scaled_dimension [OF a(3,5,4) a(9) a(7)] obtain nw where
    nw: "bind_err (int_truediv t ch) (\<lambda>ratio. int_mul_float cw ratio) = Inr nw"
        "cw * t - ch \<le> nw * ch" "nw * ch \<le> cw * t" by blast
  from nw(1) obtain ratio' where "int_truediv t ch = Inr ratio'" "int_mul_float cw ratio' = Inr nw"
    by (auto simp: bind_err_Inr)
  then have "new_dimensions other (PInt t) maintain_aspect cw ch = Inr (PInt nw, PInt t)"
    using a(1,2,3) by (simp add: new_dimensions_def val_truediv_def)
  with nw(2,3)
  show "\<exists>nw. new_dimensions other (PInt t) maintain_aspect cw ch = Inr (PInt nw, PInt t) \<and>
          cw * t - ch \<le> nw * ch \<and> nw * ch \<le> cw * t" by blast
next
  fix c d i f r w img0
  assume "process_image_body c d i (Some scenario_override) f = Inr (r, w) \<and>
      image_open c i = Inr img0 \<and>
      width (auto_orient c img0) = 1600 \<and> height (auto_orient c img0) = 1200"
  then show "res_processed_size r = (800, 600)"
    using scenario_size by blast
qed

theorem resize_preserves_aspect_witness:
  "truthy (PBool True) \<and> \<not> truthy PNone \<and> (0::int) < 800 \<and> (0::int) < 1600 \<and> (0::int) < 1200 \<and>
   (1600::int) < 2 ^ 51 \<and> (1200::int) < 2 ^ 51 \<and> (1200::int) * 800 < 2 ^ 51 \<and>
   (1600::int) * 800 < 2 ^ 51 \<and>
   new_dimensions (PInt 800) PNone (PBool True) 1600 1200 = Inr (PInt 800, PInt 600) \<and>
   process_image_body sample_env ''out'' (BytesIO [255, 216, 255]) (Some scenario_override)
     (Some ''result.webp'') = Inr (scenario_result, zero_bytes 102000) \<and>
   image_open sample_env (BytesIO [255, 216, 255]) = Inr sample_image \<and>
   width (auto_orient sample_env sample_image) = 1600 \<and>
   height (auto_orient sample_env sample_image) = 1200 \<and>
   res_processed_size scenario_result = (800, 600)"
proof -
  have h: "truthy (PBool True)" "\<not> truthy PNone" "(0::int) < 800" "(0::int) < 1600"
    "(0::int) < 1200" "(1600::int) < 2 ^ 51" "(1200::int) < 2 ^ 51"
    "(1200::int) * 800 < 2 ^ 51" "(1600::int) * 800 < 2 ^ 51"
    by simp_all
  have o: "width (auto_orient sample_env sample_image) = 1600"
    "height (auto_orient sample_env sample_image) = 1200"
    by (simp_all add: sample_orient sample_image_fields)
  have s: "res_processed_size scenario_result = (800, 600)"
    by (simp add: scenario_result_def)
  note inst = resize_preserves_aspect [OF h]
  from inst h new_dimensions_scenario scenario_body sample_open o s
  show ?thesis by blast
qed

text \<open>
  The claim as the specification states it, for every 1600 by 1200 input, fails on a
  photo that carries an EXIF rotation: the input is reported as 1600 by 1200, the
  auto-orientation step turns it, and the output is 800 by 1066.
\<close>

theorem rotated_input_counterexample:
  "image_open rotating_env (BytesIO [255, 216, 255]) = Inr sample_image \<and>
   width sample_image = 1600 \<and> height sample_image = 1200 \<and>
   process_image_body rotating_env ''out'' (BytesIO [255, 216, 255]) (Some scenario_override)
     (Some ''result.webp'') = Inr (rotated_result, zero_bytes 181220) \<and>
   res_original_size rotated_result = (1600, 1200) \<and>
   res_processed_size rotated_result = (800, 1066)"
  by (simp add: rotating_env_fields sample_image_fields rotated_body)
     (simp add: rotated_result_def)

subsection \<open>The reported sizes\<close>

lemma format_env_fields:
  "image_open format_env (Path ''logo.png'') = Inr png_image"
  "image_open format_env (Path ''scan.dat'') = Inr unknown_image"
  "write_file format_env p = None" "path_join format_env d f = d @ ''/'' @ f"
  "auto_orient format_env img = img"
  "get_image_size format_env png_image = Inr 640000"
  "get_image_size format_env unknown_image = Inr 480000"
  by (simp_all add: format_env_def sample_env_def get_image_size_def sample_image_def
        sample_quality_def auto_orient_def png_image_def unknown_image_def
        format_or_jpeg_def format_divisor_def)

lemma format_resize:
  "resize_image format_env (sample_image\<lparr>format := fo\<rparr>)
     (PDict [(''enabled'', PBool True), (''width'', PInt 800), (''height'', PNone),
             (''maintainAspectRatio'', PBool True)]) = Inr small_image"
  by (simp add: resize_image_def new_dimensions_def dict_get_def dict_get_default_def
        sample_image_def val_truediv_sample int_mul_float_samples image_resize_def
        format_env_def sample_env_def small_image_def
      cong: bind_err_weak_cong)

lemma format_manual:
  "manual_mode format_env (sample_image\<lparr>format := fo\<rparr>) scenario_merged = Inr small_image"
proof -
  have c: "compress_image format_env small_image
     (PDict [(''enabled'', PBool True), (''quality'', PInt 85), (''maxWidth'', PInt 1920),
             (''maxHeight'', PInt 1080)]) = Inr small_image"
    by (rule compress_small) (simp_all add: small_image_def)
  show ?thesis
    by (simp add: manual_mode_def scenario_items format_env_fields format_resize c Let_def
        cong: bind_err_weak_cong)
qed

lemma png_ratio:
  "compression_ratio 58285 640000 = Inr (6395815158307881 / 70368744177664)"
proof -
  have a: "int_truediv 58285 640000 = Inr (3281153803516117 / 36028797018963968)"
    by (simp add: float_eval)
  have b: "float_sub 1 (3281153803516117 / 36028797018963968)
             = 8186910803861963 / 9007199254740992"
    by (simp add: float_eval)
  have c: "float_mul (8186910803861963 / 9007199254740992) 100
             = 6396024065517159 / 70368744177664"
    by (simp add: float_eval)
  have d: "py_round2 (6396024065517159 / 70368744177664)
             = 6395815158307881 / 70368744177664"
    by (simp add: py_round2_def float_eval)
  show ?thesis by (simp add: compression_ratio_def a b c d)
qed

lemma unknown_ratio:
  "compression_ratio 58285 480000 = Inr (6182597863449559 / 70368744177664)"
proof -
  have a: "int_truediv 58285 480000 = Inr (8749743476042979 / 72057594037927936)"
    by (simp add: float_eval)
  have b: "float_sub 1 (8749743476042979 / 72057594037927936)
             = 1978370330058905 / 2251799813685248"
    by (simp add: float_eval)
  have c: "float_mul (1978370330058905 / 2251799813685248) 100
             = 3091203640717039 / 35184372088832"
    by (simp add: float_eval)
  have d: "py_round2 (3091203640717039 / 35184372088832)
             = 6182597863449559 / 70368744177664"
    by (simp add: py_round2_def float_eval)
  show ?thesis by (simp add: compression_ratio_def a b c d)
qed

lemma two_decimals:
  "fl (9089 / 100) = 6395815158307881 / 70368744177664"
  "fl (8786 / 100) = 6182597863449559 / 70368744177664"
  by (simp_all add: float_eval)

lemma webp_format:
  "determine_output_format fo
     (PDict [(''outputFormat'', PStr ''webp''), (''convertToWebp'', PBool True)])
     = Inr (Some ''WEBP'')"
  by (simp add: determine_output_format_def dict_get_default_def OUTPUT_FORMATS_def
        lower_def lower_char_def)

lemma format_final:
  "final_image format_env small_image scenario_merged
     = Inr (image_new format_env ''RGB'' 800 600 [])"
  "encode format_env (image_new format_env ''RGB'' 800 600 []) (Some ''WEBP'') False
     [(''quality'', PInt 85), (''optimize'', PBool True)] = Inr (zero_bytes 58285)"
  "get_save_kwargs (Some ''WEBP'') scenario_merged
     = Inr [(''quality'', PInt 85), (''optimize'', PBool True)]"
    apply (simp add: final_image_def scenario_items remove_metadata_def small_image_def
        sample_image_def)
   apply (simp add: format_env_def sample_env_def image_new_def sample_quality_def
        format_divisor_def)
  apply (simp add: get_save_kwargs_def scenario_items Let_def)
  done

lemma png_body:
  "process_image_body format_env ''out'' (Path ''logo.png'') (Some scenario_override)
     (Some ''logo.webp'') = Inr (png_run, zero_bytes 58285)"
proof -
  have rm: "run_mode format_env png_image scenario_merged = Inr (small_image, scenario_merged)"
    by (simp add: run_mode_def scenario_items format_manual png_image_def)
  have f: "format png_image = Some ''PNG''" "width png_image = 1600" "height png_image = 1200"
    by (simp_all add: png_image_def sample_image_def)
  show ?thesis
    by (simp add: process_image_body_def scenario_merged format_env_fields rm
        scenario_items webp_format make_output_filename_def format_final png_ratio
        png_run_def Let_def f image_new_fields
      cong: bind_err_weak_cong)
qed

lemma unknown_body:
  "process_image_body format_env ''out'' (Path ''scan.dat'') (Some scenario_override)
     (Some ''scan.webp'') = Inr (unknown_run, zero_bytes 58285)"
proof -
  have rm: "run_mode format_env unknown_image scenario_merged
              = Inr (small_image, scenario_merged)"
    by (simp add: run_mode_def scenario_items format_manual unknown_image_def)
  have f: "format unknown_image = None" "width unknown_image = 1600"
    "height unknown_image = 1200"
    by (simp_all add: unknown_image_def sample_image_def)
  show ?thesis
    by (simp add: process_image_body_def scenario_merged format_env_fields rm
        scenario_items webp_format make_output_filename_def format_final unknown_ratio
        unknown_run_def Let_def f image_new_fields
      cong: bind_err_weak_cong)
qed

text \<open>
  Claim C10.  In a successful result, \<^verbatim>\<open>original.file_size\<close> is the length of the
  bytes obtained by encoding the freshly opened image with no save parameters, in the
  image's own format when it has one, in \<^verbatim>\<open>JPEG\<close> when its format is \<^verbatim>\<open>None\<close> or
  empty; the bytes of the input play no part.  \<^verbatim>\<open>compression_ratio\<close> is 0 when that
  size is 0.  Otherwise let \<open>z\<close> be \<^verbatim>\<open>(1 - final / original) * 100\<close> computed in
  double precision, each of the three operations rounded: the ratio is \<open>z\<close> itself if
  \<open>z\<close> is infinite, and else the double nearest to \<open>k / 100\<close>, where \<open>k\<close> is the integer
  nearest to \<open>100 z\<close>, the even one of the two on a tie.
\<close>

theorem original_file_size_is_reencoded:
  "process_image_body c d i s f = Inr (r, written) \<Longrightarrow> image_open c i = Inr img0 \<Longrightarrow>
   (\<exists>bytes0.
      encode c img0
        (case format img0 of
           None \<Rightarrow> Some ''JPEG''
         | Some x \<Rightarrow> if x = [] then Some ''JPEG'' else Some x) False [] = Inr bytes0 \<and>
      res_original_file_size r = length bytes0) \<and>
   res_processed_file_size r = length written \<and>
   (res_original_file_size r = 0 \<longrightarrow> res_compression_ratio r = 0) \<and>
   (0 < res_original_file_size r \<longrightarrow>
      (let q = fl (of_nat (res_processed_file_size r) / of_nat (res_original_file_size r));
           z = to_double (to_double (1 - q) * 100)
       in if float_inf \<le> \<bar>z\<bar> then res_compression_ratio r = z
          else \<exists>k. \<bar>of_int k - z * 100\<bar> \<le> 1 / 2 \<and>
                   (\<bar>of_int k - z * 100\<bar> = 1 / 2 \<longrightarrow> even k) \<and>
                   res_compression_ratio r = to_double (of_int k / 100)))"
proof -
  assume body: "process_image_body c d i s f = Inr (r, written)"
    and op: "image_open c i = Inr img0"
  from body show ?thesis
  proof (rule process_image_body_success)
    fix img0' n img1 ps fs fmt filename kw img2 ratio
    assume a: "image_open c i = Inr img0'" "get_image_size c img0' = Inr n"
      "compression_ratio (length written) n = Inr ratio"
      and r: "r = \<lparr>res_output_path = path_join c d filename,
           res_output_filename = filename,
           res_original_format = format img0',
           res_original_size = (width img0', height img0'),
           res_original_file_size = n,
           res_processed_format = fmt,
           res_processed_size = (width img2, height img2),
           res_processed_file_size = length written,
           res_settings_used = ps,
           res_compression_ratio = ratio\<rparr>"
    from a(1) op have [simp]: "img0' = img0" by simp
    from a(2) obtain bytes0 where
      b: "encode c img0 (Some (format_or_jpeg (format img0))) False [] = Inr bytes0"
         "n = length bytes0"
      by (auto simp: get_image_size_def bind_err_Inr)
    have fmt: "Some (format_or_jpeg (format img0)) =
        (case format img0 of
           None \<Rightarrow> Some ''JPEG''
         | Some x \<Rightarrow> if x = [] then Some ''JPEG'' else Some x)"
      by (simp add: format_or_jpeg_def split: option.splits)
    define q where "q = fl (of_nat (length written) / of_nat n)"
    define z where "z = to_double (to_double (1 - q) * 100)"
    have ratio: "ratio = (if 0 < n then py_round2 z else 0)"
      using a(3) unfolding z_def q_def
      by (auto simp: compression_ratio_def bind_err_Inr float_mul_def float_sub_def
          dest!: int_truediv_value split: if_splits)
    have rnd: "if float_inf \<le> \<bar>z\<bar> then py_round2 z = z
          else \<exists>k. \<bar>of_int k - z * 100\<bar> \<le> 1 / 2 \<and>
                   (\<bar>of_int k - z * 100\<bar> = 1 / 2 \<longrightarrow> even k) \<and>
                   py_round2 z = to_double (of_int k / 100)"
      using round_half_even_error [of "z * 100"] round_half_even_tie [of "z * 100"]
      by (auto simp: py_round2_def)
    have rs: "res_original_file_size r = n" "res_processed_file_size r = length written"
      "res_compression_ratio r = ratio"
      by (simp_all add: r)
    show ?thesis
      unfolding rs Let_def q_def [symmetric] z_def [symmetric]
      using b fmt ratio rnd by auto
  qed
qed

theorem original_file_size_is_reencoded_witness:
  "process_image_body format_env ''out'' (Path ''logo.png'') (Some scenario_override)
     (Some ''logo.webp'') = Inr (png_run, zero_bytes 58285) \<and>
   image_open format_env (Path ''logo.png'') = Inr png_image \<and>
   format png_image = Some ''PNG'' \<and>
   encode format_env png_image (Some ''PNG'') False [] = Inr (zero_bytes 640000) \<and>
   encode format_env png_image (Some ''JPEG'') False [] = Inr (zero_bytes 480000) \<and>
   res_original_file_size png_run = 640000 \<and>
   res_processed_file_size png_run = 58285 \<and>
   to_double (to_double (1 - fl (58285 / 640000)) * 100)
     = 6396024065517159 / 70368744177664 \<and>
   \<bar>9089 - 6396024065517159 / 70368744177664 * (100 :: rat)\<bar> < 1 / 2 \<and>
   res_compression_ratio png_run = to_double (9089 / 100) \<and>
   process_image_body format_env ''out'' (Path ''scan.dat'') (Some scenario_override)
     (Some ''scan.webp'') = Inr (unknown_run, zero_bytes 58285) \<and>
   image_open format_env (Path ''scan.dat'') = Inr unknown_image \<and>
   format unknown_image = None \<and>
   encode format_env unknown_image (Some ''JPEG'') False [] = Inr (zero_bytes 480000) \<and>
   encode format_env unknown_image (Some ''PNG'') False [] = Inr (zero_bytes 640000) \<and>
   res_original_file_size unknown_run = 480000 \<and>
   res_processed_file_size unknown_run = 58285 \<and>
   to_double (to_double (1 - fl (58285 / 480000)) * 100)
     = 3091203640717039 / 35184372088832 \<and>
   \<bar>8786 - 3091203640717039 / 35184372088832 * (100 :: rat)\<bar> < 1 / 2 \<and>
   res_compression_ratio unknown_run = to_double (8786 / 100)"
proof -
  have f: "format png_image = Some ''PNG''" "format unknown_image = None"
    by (simp_all add: png_image_def unknown_image_def)
  have e: "encode format_env png_image (Some ''PNG'') False [] = Inr (zero_bytes 640000)"
    "encode format_env png_image (Some ''JPEG'') False [] = Inr (zero_bytes 480000)"
    "encode format_env unknown_image (Some ''JPEG'') False [] = Inr (zero_bytes 480000)"
    "encode format_env unknown_image (Some ''PNG'') False [] = Inr (zero_bytes 640000)"
    by (simp_all add: format_env_def sample_env_def png_image_def unknown_image_def
          sample_image_def sample_quality_def format_divisor_def)
  have v: "res_original_file_size png_run = 640000"
    "res_processed_file_size png_run = 58285"
    "res_original_file_size unknown_run = 480000"
    "res_processed_file_size unknown_run = 58285"
    by (simp_all add: png_run_def unknown_run_def)
  have z: "to_double (to_double (1 - fl (58285 / 640000)) * 100)
       = 6396024065517159 / 70368744177664"
    "to_double (to_double (1 - fl (58285 / 480000)) * 100)
       = 3091203640717039 / 35184372088832"
    by (simp_all add: float_eval)
  have k: "\<bar>9089 - 6396024065517159 / 70368744177664 * (100 :: rat)\<bar> < 1 / 2"
    "\<bar>8786 - 3091203640717039 / 35184372088832 * (100 :: rat)\<bar> < 1 / 2"
    by simp_all
  have t: "res_compression_ratio png_run = to_double (9089 / 100)"
    "res_compression_ratio unknown_run = to_double (8786 / 100)"
    by (simp_all add: png_run_def unknown_run_def float_eval)
  note png = original_file_size_is_reencoded [OF png_body format_env_fields(1)]
  note unknown = original_file_size_is_reencoded [OF unknown_body format_env_fields(2)]
  from png unknown png_body unknown_body format_env_fields(1,2) f e v z k t
  show ?thesis by blast
qed

subsection \<open>The settings in use and the default settings\<close>

lemma set_nested_keys: "set_nested s k1 k2 v = Inr s' \<Longrightarrow> map fst s' = map fst s"
  by (auto simp: set_nested_def update_keys map_of_eq_None_iff [symmetric]
      simp del: map_of_eq_None_iff split: option.splits pyval.splits)

lemma process_auto_mode_frame:
  assumes run: "process_auto_mode c img s = Inr (img', s')"
  shows "k \<noteq> ''format'' \<and> k \<noteq> ''optimization'' \<and> k \<noteq> ''compression''
           \<Longrightarrow> map_of s' k = map_of s k"
    and "k \<noteq> ''outputFormat'' \<Longrightarrow> get_nested s' ''format'' k = get_nested s ''format'' k"
    and "k \<noteq> ''removeMetadata'' \<and> k \<noteq> ''autoOrient'' \<and> k \<noteq> ''progressive''
           \<Longrightarrow> get_nested s' ''optimization'' k = get_nested s ''optimization'' k"
    and "k \<noteq> ''quality'' \<and> k \<noteq> ''enabled''
           \<Longrightarrow> get_nested s' ''compression'' k = get_nested s ''compression'' k"
    and "map fst s' = map fst s"
proof -
  from run obtain s1 s2 s3 s4 s5 q where
    s: "set_nested s ''format'' ''outputFormat'' (PStr ''webp'') = Inr s1"
       "set_nested s1 ''optimization'' ''removeMetadata'' (PBool True) = Inr s2"
       "set_nested s2 ''optimization'' ''autoOrient'' (PBool True) = Inr s3"
       "set_nested s3 ''optimization'' ''progressive'' (PBool True) = Inr s4"
       "set_nested s4 ''compression'' ''quality'' (PInt q) = Inr s5"
       "set_nested s5 ''compression'' ''enabled'' (PBool True) = Inr s'"
    unfolding process_auto_mode_def Let_def
    by (auto simp: bind_err_Inr split: prod.splits)
  note g = set_nested_get [OF s(6)] set_nested_get [OF s(5)] set_nested_get [OF s(4)]
          set_nested_get [OF s(3)] set_nested_get [OF s(2)] set_nested_get [OF s(1)]
  show "k \<noteq> ''format'' \<and> k \<noteq> ''optimization'' \<and> k \<noteq> ''compression''
           \<Longrightarrow> map_of s' k = map_of s k"
    by (simp add: set_nested_map_of [OF s(6)] set_nested_map_of [OF s(5)]
          set_nested_map_of [OF s(4)] set_nested_map_of [OF s(3)] set_nested_map_of [OF s(2)]
          set_nested_map_of [OF s(1)])
  show "k \<noteq> ''outputFormat'' \<Longrightarrow> get_nested s' ''format'' k = get_nested s ''format'' k"
    by (simp add: g)
  show "k \<noteq> ''removeMetadata'' \<and> k \<noteq> ''autoOrient'' \<and> k \<noteq> ''progressive''
           \<Longrightarrow> get_nested s' ''optimization'' k = get_nested s ''optimization'' k"
    by (simp add: g)
  show "k \<noteq> ''quality'' \<and> k \<noteq> ''enabled''
           \<Longrightarrow> get_nested s' ''compression'' k = get_nested s ''compression'' k"
    by (simp add: g)
  show "map fst s' = map fst s"
    by (simp add: set_nested_keys [OF s(6)] set_nested_keys [OF s(5)] set_nested_keys [OF s(4)]
          set_nested_keys [OF s(3)] set_nested_keys [OF s(2)] set_nested_keys [OF s(1)])
qed

lemma class_heap_value:
  "hstore [] (PDict DEFAULT_SETTINGS) =
     ([[(''enabled'', HBool True), (''quality'', HInt 85), (''maxWidth'', HInt 1920),
        (''maxHeight'', HInt 1080)],
       [(''outputFormat'', HStr ''webp''), (''convertToWebp'', HBool True)],
       [(''removeMetadata'', HBool True), (''progressive'', HBool True),
        (''autoOrient'', HBool True)],
       [(''enabled'', HBool False), (''width'', HNone), (''height'', HNone),
        (''maintainAspectRatio'', HBool True)],
       [(''mode'', HStr ''auto''), (''targetFileSize'', HInt 153600),
        (''compression'', HRef 0), (''format'', HRef 1), (''optimization'', HRef 2),
        (''resize'', HRef 3)]], HRef 4)"
  by (simp add: DEFAULT_SETTINGS_def halloc_def)

lemma default_rounds:
  "auto_round sample_env (PInt 153600) sample_image 95 = Inr (Some (sample_image, 80))"
  "auto_round sample_env (PInt 153600) sample_image 80 = Inr (Some (sample_image, 65))"
  "auto_round sample_env (PInt 153600) sample_image 65 = Inr (Some (sample_image, 50))"
  "auto_round sample_env (PInt 153600) sample_image 50 = Inr (Some (sample_image, 35))"
  "auto_round sample_env (PInt 153600) sample_image 35 = Inr (Some (sample_image, 30))"
  "auto_round sample_env (PInt 153600) sample_image 30 = Inr None"
proof -
  have f: "float_of_int 153600 = Inr 153600" "float_mul 153600 (3 / 2) = 230400"
    by (simp_all add: float_eval)
  have g: "\<And>n. int_gt_float n 230400 = (230400 < n)"
    by (simp add: int_gt_float_def float_inf_def)
  show "auto_round sample_env (PInt 153600) sample_image 95 = Inr (Some (sample_image, 80))"
  "auto_round sample_env (PInt 153600) sample_image 80 = Inr (Some (sample_image, 65))"
  "auto_round sample_env (PInt 153600) sample_image 65 = Inr (Some (sample_image, 50))"
  "auto_round sample_env (PInt 153600) sample_image 50 = Inr (Some (sample_image, 35))"
  "auto_round sample_env (PInt 153600) sample_image 35 = Inr (Some (sample_image, 30))"
  "auto_round sample_env (PInt 153600) sample_image 30 = Inr None"
    by (simp_all add: auto_round_def sample_env_def sample_image_def sample_quality_def
          f g Let_def cong: bind_err_weak_cong)
qed

lemma default_loop:
  "auto_loop sample_env (PInt 153600) max_iterations sample_image 95 0 =
     (6, Inr (sample_image, 30))"
  by (simp add: max_iterations_def eval_nat_numeral default_rounds)

lemma default_search:
  "bind_err (pre_resize sample_env (auto_orient sample_env sample_image))
     (\<lambda>img2. snd (auto_loop sample_env (PInt 153600) max_iterations img2 95 0))
   = Inr (sample_image, 30)"
  by (simp add: sample_pre default_loop)

lemma class_heap_eq:
  "class_heap =
     [[(''enabled'', HBool True), (''quality'', HInt 85), (''maxWidth'', HInt 1920),
        (''maxHeight'', HInt 1080)],
       [(''outputFormat'', HStr ''webp''), (''convertToWebp'', HBool True)],
       [(''removeMetadata'', HBool True), (''progressive'', HBool True),
        (''autoOrient'', HBool True)],
       [(''enabled'', HBool False), (''width'', HNone), (''height'', HNone),
        (''maintainAspectRatio'', HBool True)],
       [(''mode'', HStr ''auto''), (''targetFileSize'', HInt 153600),
        (''compression'', HRef 0), (''format'', HRef 1), (''optimization'', HRef 2),
        (''resize'', HRef 3)]]"
  unfolding class_heap_def class_heap_value by simp

lemma default_heap_run:
  "process_image_heap depth sample_env class_heap defaults_ref (BytesIO [255, 216, 255]) None =
     [[(''enabled'', HBool True), (''quality'', HInt 30), (''maxWidth'', HInt 1920),
        (''maxHeight'', HInt 1080)],
       [(''outputFormat'', HStr ''webp''), (''convertToWebp'', HBool True)],
       [(''removeMetadata'', HBool True), (''progressive'', HBool True),
        (''autoOrient'', HBool True)],
       [(''enabled'', HBool False), (''width'', HNone), (''height'', HNone),
        (''maintainAspectRatio'', HBool True)],
       [(''mode'', HStr ''auto''), (''targetFileSize'', HInt 153600),
        (''compression'', HRef 0), (''format'', HRef 1), (''optimization'', HRef 2),
        (''resize'', HRef 3)],
       [(''mode'', HStr ''auto''), (''targetFileSize'', HInt 153600),
        (''compression'', HRef 0), (''format'', HRef 1), (''optimization'', HRef 2),
        (''resize'', HRef 3)]]"
  by (simp add: process_image_heap_def class_heap_eq defaults_ref_def
        dict_copy_def halloc_def hdict_at_def sample_open sample_size
        process_auto_mode_h_def hset_nested_def hset_item_def default_search)

lemma defaults_drift:
  "hview 2 class_heap (HRef defaults_ref) = Some (PDict DEFAULT_SETTINGS) \<and>
   hview 2 (process_image_heap depth sample_env class_heap defaults_ref
              (BytesIO [255, 216, 255]) None) (HRef defaults_ref)
     = Some (PDict defaults_after)"
  apply (simp only: default_heap_run)
  apply (simp add: class_heap_eq defaults_ref_def numeral_2_eq_2
      hdict_at_def DEFAULT_SETTINGS_def defaults_after_def)
  done

lemma default_auto:
  "process_auto_mode sample_env sample_image DEFAULT_SETTINGS = Inr (sample_image, defaults_after)"
  by (simp add: process_auto_mode_def sample_pre default_loop DEFAULT_SETTINGS_def
        dict_get_default_def set_nested_def defaults_after_def
      cong: bind_err_weak_cong)

text \<open>
  Claim C5.  In a successful run the settings in use, which the result reports, are
  the merged settings except for what \<^verbatim>\<open>_process_auto_mode\<close> assigns.  When the mode
  is not \<^verbatim>\<open>auto\<close> they are the merged settings.  In every mode they have the same
  keys in the same order; every top-level entry other than \<^verbatim>\<open>format\<close>,
  \<^verbatim>\<open>optimization\<close> and \<^verbatim>\<open>compression\<close> is the same; and within those three, every
  field reads the same except \<^verbatim>\<open>format.outputFormat\<close>, the optimization flags
  \<^verbatim>\<open>removeMetadata\<close>, \<^verbatim>\<open>autoOrient\<close> and \<^verbatim>\<open>progressive\<close>, and
  \<^verbatim>\<open>compression.quality\<close> and \<^verbatim>\<open>compression.enabled\<close>.
\<close>

theorem settings_frame:
  "process_image_body c d i settings f = Inr (r, written) \<Longrightarrow>
   (dict_get (merged_settings settings) ''mode'' \<noteq> PStr ''auto'' \<longrightarrow>
      res_settings_used r = merged_settings settings) \<and>
   map fst (res_settings_used r) = map fst (merged_settings settings) \<and>
   (\<forall>k. k \<noteq> ''format'' \<and> k \<noteq> ''optimization'' \<and> k \<noteq> ''compression'' \<longrightarrow>
      map_of (res_settings_used r) k = map_of (merged_settings settings) k) \<and>
   (\<forall>k. k \<noteq> ''outputFormat'' \<longrightarrow>
      get_nested (res_settings_used r) ''format'' k
        = get_nested (merged_settings settings) ''format'' k) \<and>
   (\<forall>k. k \<noteq> ''removeMetadata'' \<and> k \<noteq> ''autoOrient'' \<and> k \<noteq> ''progressive'' \<longrightarrow>
      get_nested (res_settings_used r) ''optimization'' k
        = get_nested (merged_settings settings) ''optimization'' k) \<and>
   (\<forall>k. k \<noteq> ''quality'' \<and> k \<noteq> ''enabled'' \<longrightarrow>
      get_nested (res_settings_used r) ''compression'' k
        = get_nested (merged_settings settings) ''compression'' k)"
proof -
  assume body: "process_image_body c d i settings f = Inr (r, written)"
  from body show ?thesis
  proof (rule process_image_body_success)
    fix img0 n img1 ps fs fmt filename kw img2 ratio
    assume a: "run_mode c img0 (merged_settings settings) = Inr (img1, ps)"
      and r: "r = \<lparr>res_output_path = path_join c d filename,
           res_output_filename = filename,
           res_original_format = format img0,
           res_original_size = (width img0, height img0),
           res_original_file_size = n,
           res_processed_format = fmt,
           res_processed_size = (width img2, height img2),
           res_processed_file_size = length written,
           res_settings_used = ps,
           res_compression_ratio = ratio\<rparr>"
    have rs: "res_settings_used r = ps" by (simp add: r)
    show ?thesis
    proof (cases "dict_get (merged_settings settings) ''mode'' = PStr ''auto''")
      case True
      with a have pam: "process_auto_mode c img0 (merged_settings settings) = Inr (img1, ps)"
        by (simp add: run_mode_def)
      from process_auto_mode_frame [OF pam] True show ?thesis
        unfolding rs by simp
    next
      case False
      with a have "ps = merged_settings settings"
        by (auto simp: run_mode_def bind_err_Inr)
      then show ?thesis unfolding rs by simp
    qed
  qed
qed

theorem settings_frame_witness:
  "process_image_body sample_env ''out'' (BytesIO [255, 216, 255]) (Some caller_override)
     (Some ''result.webp'') = Inr (caller_run, zero_bytes 24000) \<and>
   dict_get (merged_settings (Some caller_override)) ''mode'' = PStr ''auto'' \<and>
   map_of (res_settings_used caller_run) ''targetFileSize'' = Some (PInt 24000) \<and>
   map_of (merged_settings (Some caller_override)) ''targetFileSize'' = Some (PInt 24000) \<and>
   get_nested (res_settings_used caller_run) ''compression'' ''maxWidth'' = Inr (PInt 1920) \<and>
   get_nested (merged_settings (Some caller_override)) ''compression'' ''maxWidth''
     = Inr (PInt 1920) \<and>
   get_nested (res_settings_used caller_run) ''format'' ''convertToWebp'' = Inr (PBool True) \<and>
   get_nested (merged_settings (Some caller_override)) ''format'' ''convertToWebp''
     = Inr (PBool True) \<and>
   process_image_body sample_env ''out'' (BytesIO [255, 216, 255]) (Some manual_override)
     (Some ''result.webp'') = Inr (manual_result, zero_bytes 30000) \<and>
   dict_get (merged_settings (Some manual_override)) ''mode'' \<noteq> PStr ''auto'' \<and>
   res_settings_used manual_result = merged_settings (Some manual_override)"
proof -
  have c: "dict_get (merged_settings (Some caller_override)) ''mode'' = PStr ''auto''"
    "map_of (res_settings_used caller_run) ''targetFileSize'' = Some (PInt 24000)"
    "map_of (merged_settings (Some caller_override)) ''targetFileSize'' = Some (PInt 24000)"
    "get_nested (res_settings_used caller_run) ''compression'' ''maxWidth'' = Inr (PInt 1920)"
    "get_nested (merged_settings (Some caller_override)) ''compression'' ''maxWidth''
       = Inr (PInt 1920)"
    "get_nested (res_settings_used caller_run) ''format'' ''convertToWebp'' = Inr (PBool True)"
    "get_nested (merged_settings (Some caller_override)) ''format'' ''convertToWebp''
       = Inr (PBool True)"
    by (simp_all add: caller_merged caller_merged_def caller_run_def caller_result_def
          get_nested_def dict_item_def dict_get_def)
  have m: "dict_get (merged_settings (Some manual_override)) ''mode'' \<noteq> PStr ''auto''"
    "res_settings_used manual_result = merged_settings (Some manual_override)"
    by (simp_all add: manual_merged manual_merged_items manual_result_def)
  note auto = settings_frame [OF caller_body]
  note manual = settings_frame [OF sample_body]
  from auto manual caller_body sample_body c m show ?thesis by blast
qed

text \<open>
  The claim as the specification states it fails twice.  For the caller who switched
  \<^verbatim>\<open>removeMetadata\<close> off, the settings in use hold it switched on, a field other than
  the quality and the output format.  And the class attribute is not left as it was:
  a call with no settings works on a shallow copy of \<^verbatim>\<open>DEFAULT_SETTINGS\<close>, its
  assignments reach the nested dictionaries of the attribute itself, and after the
  call the attribute holds the quality 30 that the search ended with, where it held 85.
\<close>

theorem settings_mutation_counterexample:
  "get_nested (merged_settings (Some caller_override)) ''optimization'' ''removeMetadata''
     = Inr (PBool False) \<and>
   process_image_body sample_env ''out'' (BytesIO [255, 216, 255]) (Some caller_override)
     (Some ''result.webp'') = Inr (caller_run, zero_bytes 24000) \<and>
   get_nested (res_settings_used caller_run) ''optimization'' ''removeMetadata''
     = Inr (PBool True) \<and>
   hstore [] (PDict DEFAULT_SETTINGS) = (class_heap, HRef defaults_ref) \<and>
   hview 2 class_heap (HRef defaults_ref) = Some (PDict DEFAULT_SETTINGS) \<and>
   hview 2 (process_image_heap 1000 sample_env class_heap defaults_ref
              (BytesIO [255, 216, 255]) None) (HRef defaults_ref)
     = Some (PDict defaults_after) \<and>
   get_nested DEFAULT_SETTINGS ''compression'' ''quality'' = Inr (PInt 85) \<and>
   get_nested defaults_after ''compression'' ''quality'' = Inr (PInt 30)"
proof -
  have a: "get_nested (merged_settings (Some caller_override)) ''optimization''
             ''removeMetadata'' = Inr (PBool False)"
    "get_nested (res_settings_used caller_run) ''optimization'' ''removeMetadata''
       = Inr (PBool True)"
    by (simp_all add: caller_merged caller_merged_def caller_run_def caller_result_def
          get_nested_def dict_item_def)
  have h: "hstore [] (PDict DEFAULT_SETTINGS) = (class_heap, HRef defaults_ref)"
    unfolding class_heap_value by (simp add: class_heap_eq defaults_ref_def)
  have q: "get_nested DEFAULT_SETTINGS ''compression'' ''quality'' = Inr (PInt 85)"
    "get_nested defaults_after ''compression'' ''quality'' = Inr (PInt 30)"
    by (simp_all add: DEFAULT_SETTINGS_def defaults_after_def get_nested_def dict_item_def)
  from a caller_body h defaults_drift [of 1000] q show ?thesis by blast
qed

end
